theory Spec2Isabelle
  imports Complex_Main "HOL-Library.AList" "HOL-Library.Sublist"
begin

section \<open>JavaScript values and object lookup\<close>

text \<open>
  The library is JavaScript. The values that flow through the resolution engine are
  strings, \<open>null\<close> (an absent attribute), \<open>undefined\<close> (a missing property) and, because
  every object literal inherits from \<open>Object.prototype\<close>, the members of that prototype.
  \<open>Native n\<close> stands for the member inherited under the property name \<open>n\<close>.
\<close>

datatype jsval = Undefined | Null | Str string | Native string

text \<open>JavaScript truthiness: the empty string, \<open>null\<close> and \<open>undefined\<close> are falsy.\<close>

fun truthy :: "jsval \<Rightarrow> bool" where
  "truthy Undefined = False"
| "truthy Null = False"
| "truthy (Str s) = (s \<noteq> [])"
| "truthy (Native n) = True"

text \<open>\<open>a || b\<close>\<close>

definition js_or :: "jsval \<Rightarrow> jsval \<Rightarrow> jsval" where
  "js_or a b = (if truthy a then a else b)"

text \<open>An attribute value as \<open>getAttribute\<close> returns it: \<open>None\<close> is \<open>null\<close>.\<close>

fun of_attr :: "string option \<Rightarrow> jsval" where
  "of_attr None = Null"
| "of_attr (Some s) = Str s"

text \<open>
  The property names every object literal inherits from \<open>Object.prototype\<close>
  (ECMAScript, with the legacy accessors of its Annex B).
\<close>

definition object_prototype_names :: "string list" where
  "object_prototype_names =
     [''constructor'', ''hasOwnProperty'', ''isPrototypeOf'', ''propertyIsEnumerable'',
      ''toLocaleString'', ''toString'', ''valueOf'', ''__proto__'',
      ''__defineGetter__'', ''__defineSetter__'', ''__lookupGetter__'', ''__lookupSetter__'']"

text \<open>
  String conversion in a template literal. The text of a native function is the one V8
  prints; \<open>constructor\<close> is the function \<open>Object\<close>, \<open>__proto__\<close> is the prototype object.
\<close>

definition native_text :: "string \<Rightarrow> string" where
  "native_text n =
     (if n = ''__proto__'' then ''[object Object]''
      else if n = ''constructor'' then ''function Object() { [native code] }''
      else ''function '' @ n @ ''() { [native code] }'')"

fun to_string :: "jsval \<Rightarrow> string" where
  "to_string Undefined = ''undefined''"
| "to_string Null = ''null''"
| "to_string (Str s) = s"
| "to_string (Native n) = native_text n"

text \<open>
  A preset table is an object literal with string values, kept as the list of its own
  properties. \<open>presets[value]\<close> reads an own property first and an inherited one next.
\<close>

type_synonym table = "(string \<times> string) list"

definition js_get :: "table \<Rightarrow> string \<Rightarrow> jsval" where
  "js_get obj k =
     (case map_of obj k of
        Some v \<Rightarrow> Str v
      | None \<Rightarrow> if k \<in> set object_prototype_names then Native k else Undefined)"

section \<open>Constants and mappings\<close>

definition SHADOWS :: table where
  "SHADOWS =
     [(''none'', ''none''),
      (''sm'', ''0 1px 2px rgba(0,0,0,0.05)''),
      (''default'', ''0 1px 3px rgba(0,0,0,0.1)''),
      (''md'', ''0 4px 6px rgba(0,0,0,0.1)''),
      (''lg'', ''0 10px 15px rgba(0,0,0,0.1)''),
      (''xl'', ''0 20px 25px rgba(0,0,0,0.1)''),
      (''2xl'', ''0 25px 50px rgba(0,0,0,0.25)'')]"

definition RADIUS :: table where
  "RADIUS =
     [(''none'', ''0''), (''sm'', ''4px''), (''default'', ''8px''), (''md'', ''12px''),
      (''lg'', ''16px''), (''xl'', ''20px''), (''2xl'', ''24px''), (''3xl'', ''32px''),
      (''full'', ''9999px'')]"

definition LINE_HEIGHTS :: table where
  "LINE_HEIGHTS =
     [(''none'', ''100%''), (''tight'', ''110%''), (''snug'', ''120%''),
      (''normal'', ''140%''), (''relaxed'', ''160%''), (''loose'', ''180%'')]"

definition FONT_WEIGHTS :: table where
  "FONT_WEIGHTS =
     [(''thin'', ''100''), (''extralight'', ''200''), (''light'', ''300''),
      (''normal'', ''400''), (''medium'', ''500''), (''semibold'', ''600''),
      (''bold'', ''700''), (''extrabold'', ''800''), (''black'', ''900'')]"

definition FONT_SIZES :: table where
  "FONT_SIZES =
     [(''xs'', ''12px''), (''s'', ''14px''), (''sm'', ''14px''), (''m'', ''16px''),
      (''md'', ''16px''), (''l'', ''20px''), (''lg'', ''20px''), (''xl'', ''24px''),
      (''2xl'', ''32px''), (''3xl'', ''40px''), (''4xl'', ''48px''), (''5xl'', ''64px'')]"

definition ROW_WIDTHS :: table where
  "ROW_WIDTHS =
     [(''narrow'', ''800px''), (''medium'', ''960px''), (''wide'', ''1170px''),
      (''extra'', ''1400px'')]"

definition CONTAINER_WIDTHS :: table where
  "CONTAINER_WIDTHS =
     [(''small'', ''550px''), (''mid'', ''720px''), (''midWide'', ''960px''),
      (''wide'', ''1170px''), (''full'', ''100%'')]"

definition BORDER_WIDTHS :: table where
  "BORDER_WIDTHS =
     [(''0'', ''0''), (''1'', ''1px''), (''2'', ''2px''), (''3'', ''3px''),
      (''4'', ''4px''), (''6'', ''6px''), (''8'', ''8px'')]"

definition BG_STYLE_CLASSES :: table where
  "BG_STYLE_CLASSES =
     [(''cover'', ''bgCover''), (''cover-center'', ''bgCoverCenter''),
      (''parallax'', ''bgCoverV2''), (''w100'', ''bgW100''), (''w100h100'', ''bgW100H100''),
      (''no-repeat'', ''bgNoRepeat''), (''repeat'', ''bgRepeat''),
      (''repeat-x'', ''bgRepeatX''), (''repeat-y'', ''bgRepeatY'')]"

definition preset_tables :: "table list" where
  "preset_tables =
     [SHADOWS, RADIUS, LINE_HEIGHTS, FONT_WEIGHTS, FONT_SIZES, ROW_WIDTHS,
      CONTAINER_WIDTHS, BORDER_WIDTHS, BG_STYLE_CLASSES]"

section \<open>Utility functions\<close>

text \<open>\<open>attr(el, name, fallback)\<close>: the attribute, or the fallback when it is absent.\<close>

type_synonym attrs = "(string \<times> string) list"

definition attr :: "attrs \<Rightarrow> string \<Rightarrow> string option" where
  "attr el name = map_of el name"

definition attr_or :: "attrs \<Rightarrow> string \<Rightarrow> string \<Rightarrow> string" where
  "attr_or el name fallback = (case map_of el name of Some v \<Rightarrow> v | None \<Rightarrow> fallback)"

definition hasAttribute :: "attrs \<Rightarrow> string \<Rightarrow> bool" where
  "hasAttribute el name = (map_of el name \<noteq> None)"

text \<open>A string that is known to be there: the attribute behind a truthiness test.\<close>

fun str_of :: "string option \<Rightarrow> string" where
  "str_of None = []"
| "str_of (Some s) = s"

text \<open>
  \<open>resolve(value, presets)\<close>: \<open>if (!value) return null; return presets[value] || value;\<close>
\<close>

definition resolve :: "string option \<Rightarrow> table \<Rightarrow> jsval" where
  "resolve value presets =
     (if \<not> truthy (of_attr value) then Null
      else js_or (js_get presets (str_of value)) (of_attr value))"

text \<open>
  \<open>buildStyle(styleObj)\<close>: the entries of the style object in insertion order (no CSS
  property name is an integer index, which \<open>Object.entries\<close> would move to the front),
  filtered, rendered as \<open>k: v\<close> and joined by \<open>; \<close>.
\<close>

type_synonym style_obj = "(string \<times> jsval) list"

fun join :: "string \<Rightarrow> string list \<Rightarrow> string" where
  "join sep [] = []"
| "join sep [x] = x"
| "join sep (x # y # ys) = x @ sep @ join sep (y # ys)"

definition style_entries :: "style_obj \<Rightarrow> style_obj" where
  "style_entries styleObj =
     filter (\<lambda>(k, v). v \<noteq> Null \<and> v \<noteq> Undefined \<and> v \<noteq> Str []) styleObj"

definition buildStyle :: "style_obj \<Rightarrow> string" where
  "buildStyle styleObj =
     join ''; '' (map (\<lambda>(k, v). k @ '': '' @ to_string v) (style_entries styleObj))"

text \<open>\<open>styles[k]\<close> and \<open>styles[k] = v\<close>: overwrite in place, or append a new property.\<close>

definition style_get :: "style_obj \<Rightarrow> string \<Rightarrow> jsval" where
  "style_get styleObj k = (case map_of styleObj k of Some v \<Rightarrow> v | None \<Rightarrow> Undefined)"


definition set_prop :: "string \<Rightarrow> jsval \<Rightarrow> style_obj \<Rightarrow> style_obj" where
  "set_prop k v styleObj = AList.update k v styleObj"

section \<open>Styleguide manager\<close>

text \<open>
  The styleguide is the JSON document of the page, read here as typed data: a catalog
  that the document leaves out is the empty list (the code reads every catalog through
  \<open>?.\<close>, so both behave alike), an optional field is an \<open>option\<close>. Of a shadow, border,
  corner or button entry only the id takes part in resolution; its other parameters are
  used by the generated stylesheet alone.
\<close>

record color =
  color_id :: string
  hex :: string

record paint_theme =
  theme_id :: string
  backgroundColorId :: "string option"
  headlineColorId :: "string option"
  subheadlineColorId :: "string option"
  contentColorId :: "string option"
  iconColorId :: "string option"
  linkColorId :: "string option"

record typography =
  baseSize :: "rat option"
  scaleRatio :: "rat option"
  headlineFont :: "string option"
  subheadlineFont :: "string option"
  contentFont :: "string option"

record styleguide =
  colors :: "color list"
  paintThemes :: "paint_theme list"
  shadows :: "string list"
  borders :: "string list"
  corners :: "string list"
  buttons :: "string list"
  typography :: "typography option"

text \<open>
  \<open>getColorHex(colorId)\<close>: the first color with that id, \<open>#000000\<close> when there is none
  (or no styleguide).
\<close>

definition getColorHex :: "styleguide option \<Rightarrow> string option \<Rightarrow> string" where
  "getColorHex data colorId =
     (case data of
        None \<Rightarrow> ''#000000''
      | Some d \<Rightarrow>
          (case find (\<lambda>c. Some (color_id c) = colorId) (colors d) of
             Some c \<Rightarrow> hex c
           | None \<Rightarrow> ''#000000''))"

subsection \<open>Numbers\<close>

text \<open>
  JavaScript numbers are IEEE doubles. The model computes with exact rationals and keeps
  the three non-finite doubles apart, so a division by zero is a value as in the source.
  Rounding errors of the double arithmetic are outside the model.
\<close>

datatype jsnum = Num rat | PosInf | NegInf | NaN

definition js_div :: "rat \<Rightarrow> rat \<Rightarrow> jsnum" where
  "js_div a b =
     (if b \<noteq> 0 then Num (a / b)
      else if a > 0 then PosInf else if a < 0 then NegInf else NaN)"

text \<open>\<open>Math.round\<close>: the nearest integer, a tie goes up.\<close>

fun Math_round :: "jsnum \<Rightarrow> jsnum" where
  "Math_round (Num q) = Num (of_int \<lfloor>q + 1 / 2\<rfloor>)"
| "Math_round x = x"

text \<open>Number to string: an integer in decimal, a fraction by long division.\<close>

fun digit_char :: "nat \<Rightarrow> char" where
  "digit_char n = char_of (48 + n mod 10)"

fun nat_digits :: "nat \<Rightarrow> nat \<Rightarrow> string" where
  "nat_digits 0 n = []"
| "nat_digits (Suc fuel) n =
     (if n < 10 then [digit_char n] else nat_digits fuel (n div 10) @ [digit_char n])"

definition nat_str :: "nat \<Rightarrow> string" where
  "nat_str n = nat_digits (Suc n) n"

fun frac_digits :: "nat \<Rightarrow> nat \<Rightarrow> nat \<Rightarrow> string" where
  "frac_digits 0 r d = []"
| "frac_digits (Suc fuel) r d =
     (if r = 0 then [] else digit_char ((10 * r) div d) # frac_digits fuel ((10 * r) mod d) d)"

definition rat_str :: "rat \<Rightarrow> string" where
  "rat_str q =
     (let (n, d) = quotient_of \<bar>q\<bar>;
          whole = nat n div nat d;
          rest = nat n mod nat d
      in (if q < 0 then ''-'' else []) @ nat_str whole @
         (if rest = 0 then [] else ''.'' @ frac_digits 17 rest (nat d)))"

fun num_str :: "jsnum \<Rightarrow> string" where
  "num_str (Num q) = rat_str q"
| "num_str PosInf = ''Infinity''"
| "num_str NegInf = ''-Infinity''"
| "num_str NaN = ''NaN''"

subsection \<open>Typescale\<close>

record scale =
  n3 :: jsnum
  n2 :: jsnum
  n1 :: jsnum
  base :: jsnum
  p1 :: jsnum
  p2 :: jsnum
  p3 :: jsnum
  p4 :: jsnum
  p5 :: jsnum
  p6 :: jsnum
  p7 :: jsnum
  p8 :: jsnum

record typescale =
  headline_tbl :: table
  subheadline_tbl :: table
  paragraph_tbl :: table

text \<open>\<open>const { baseSize = 16, scaleRatio = 1.25 } = this.data.typography\<close> and the scale.\<close>

definition scale_of :: "typography \<Rightarrow> scale" where
  "scale_of t =
     (let b = (case baseSize t of Some x \<Rightarrow> x | None \<Rightarrow> 16);
          r = (case scaleRatio t of Some x \<Rightarrow> x | None \<Rightarrow> 5 / 4)
      in \<lparr> n3 = Math_round (js_div b (r ^ 3)),
           n2 = Math_round (js_div b (r ^ 2)),
           n1 = Math_round (js_div b r),
           base = Num b,
           p1 = Math_round (Num (b * r)),
           p2 = Math_round (Num (b * r ^ 2)),
           p3 = Math_round (Num (b * r ^ 3)),
           p4 = Math_round (Num (b * r ^ 4)),
           p5 = Math_round (Num (b * r ^ 5)),
           p6 = Math_round (Num (b * r ^ 6)),
           p7 = Math_round (Num (b * r ^ 7)),
           p8 = Math_round (Num (b * r ^ 8)) \<rparr>)"

definition px :: "jsnum \<Rightarrow> string" where
  "px x = num_str x @ ''px''"

definition getTypescale :: "styleguide option \<Rightarrow> typescale option" where
  "getTypescale data =
     (case data of
        None \<Rightarrow> None
      | Some d \<Rightarrow>
          (case typography d of
             None \<Rightarrow> None
           | Some t \<Rightarrow>
               (let s = scale_of t in
                Some \<lparr> headline_tbl =
                         [(''5xl'', px (p8 s)), (''4xl'', px (p7 s)), (''3xl'', px (p6 s)),
                          (''2xl'', px (p5 s)), (''xl'', px (p4 s)), (''l'', px (p3 s)),
                          (''lg'', px (p3 s)), (''m'', px (p2 s)), (''md'', px (p2 s)),
                          (''s'', px (p1 s)), (''sm'', px (p1 s)), (''xs'', px (base s))],
                       subheadline_tbl =
                         [(''5xl'', px (p7 s)), (''4xl'', px (p6 s)), (''3xl'', px (p5 s)),
                          (''2xl'', px (p4 s)), (''xl'', px (p3 s)), (''l'', px (p2 s)),
                          (''lg'', px (p2 s)), (''m'', px (p1 s)), (''md'', px (p1 s)),
                          (''s'', px (base s)), (''sm'', px (base s)), (''xs'', px (n1 s))],
                       paragraph_tbl =
                         [(''5xl'', px (p6 s)), (''4xl'', px (p5 s)), (''3xl'', px (p4 s)),
                          (''2xl'', px (p3 s)), (''xl'', px (p2 s)), (''l'', px (p1 s)),
                          (''lg'', px (p1 s)), (''m'', px (base s)), (''md'', px (base s)),
                          (''s'', px (n1 s)), (''sm'', px (n1 s)), (''xs'', px (n2 s))] \<rparr>)))"




text \<open>
  \<open>resolveSize(size, elementType)\<close>. Every caller passes one of the three element types;
  \<open>typescale[elementType] || typescale.headline\<close> gives the headline table for any other.
\<close>

definition element_scale :: "typescale \<Rightarrow> string \<Rightarrow> table" where
  "element_scale ts elementType =
     (if elementType = ''headline'' then headline_tbl ts
      else if elementType = ''subheadline'' then subheadline_tbl ts
      else if elementType = ''paragraph'' then paragraph_tbl ts
      else headline_tbl ts)"

definition resolveSize :: "styleguide option \<Rightarrow> string \<Rightarrow> string \<Rightarrow> jsval" where
  "resolveSize data sz elementType =
     (case getTypescale data of
        Some ts \<Rightarrow>
          (let elementScale = element_scale ts elementType in
           if truthy (js_get elementScale sz) then js_get elementScale sz else Null)
      | None \<Rightarrow> Null)"

text \<open>\<open>isStyleguideRef(value, type)\<close>\<close>

definition isStyleguideRef :: "styleguide option \<Rightarrow> string option \<Rightarrow> string \<Rightarrow> bool" where
  "isStyleguideRef data value type =
     (case data of
        None \<Rightarrow> False
      | Some d \<Rightarrow>
          if \<not> truthy (of_attr value) then False
          else if type = ''paint'' then list_ex (\<lambda>t. theme_id t = str_of value) (paintThemes d)
          else if type = ''shadow'' then list_ex (\<lambda>s. s = str_of value) (shadows d)
          else if type = ''border'' then list_ex (\<lambda>b. b = str_of value) (borders d)
          else if type = ''corner'' then list_ex (\<lambda>c. c = str_of value) (corners d)
          else if type = ''button'' then list_ex (\<lambda>b. b = str_of value) (buttons d)
          else False)"

subsection \<open>A styleguide to compute with\<close>

definition example_typography :: typography where
  "example_typography =
     \<lparr> baseSize = Some 16, scaleRatio = Some (5 / 4),
       headlineFont = None, subheadlineFont = None, contentFont = None \<rparr>"

definition example_styleguide :: styleguide where
  "example_styleguide =
     \<lparr> colors = [\<lparr> color_id = ''c1'', hex = ''#111111'' \<rparr>, \<lparr> color_id = ''c2'', hex = ''#222222'' \<rparr>],
       paintThemes =
         [\<lparr> theme_id = ''dark'', backgroundColorId = Some ''c1'', headlineColorId = Some ''c2'',
             subheadlineColorId = Some ''c2'', contentColorId = Some ''c2'',
             iconColorId = Some ''c9'', linkColorId = None \<rparr>,
          \<lparr> theme_id = ''light'', backgroundColorId = Some ''c2'', headlineColorId = Some ''c1'',
             subheadlineColorId = Some ''c1'', contentColorId = Some ''c1'',
             iconColorId = Some ''c1'', linkColorId = Some ''c2'' \<rparr>],
       shadows = [''style1''], borders = [''style1''], corners = [''style1''],
       buttons = [''style1''],
       typography = Some example_typography \<rparr>"



section \<open>Declarations of an inline style string\<close>

text \<open>
  A declaration with an empty value, read off the style string itself: a colon that is
  followed by nothing but spaces up to the next semicolon or the end of the string.
\<close>

fun blank_to_semicolon :: "string \<Rightarrow> bool" where
  "blank_to_semicolon [] = True"
| "blank_to_semicolon (c # cs) = (c = CHR '';'' \<or> (c = CHR '' '' \<and> blank_to_semicolon cs))"

fun has_empty_decl :: "string \<Rightarrow> bool" where
  "has_empty_decl [] = False"
| "has_empty_decl (c # cs) = ((c = CHR '':'' \<and> blank_to_semicolon cs) \<or> has_empty_decl cs)"

text \<open>A property name or value that cannot be mistaken for declaration syntax.\<close>

definition plain :: "string \<Rightarrow> bool" where
  "plain s = (CHR '':'' \<notin> set s \<and> CHR '';'' \<notin> set s)"

definition blank :: "string \<Rightarrow> bool" where
  "blank s = list_all (\<lambda>c. c = CHR '' '') s"

definition plain_style :: "style_obj \<Rightarrow> bool" where
  "plain_style styleObj =
     list_all (\<lambda>(k, v). plain k \<and> plain (to_string v) \<and> \<not> blank (to_string v))
       (style_entries styleObj)"

text \<open>
  \<open>CFCheckbox.render\<close> writes the style of its check icon as a template literal, not
  through \<open>buildStyle\<close>:
  \<^verbatim>\<open>style="color: ${checkColor}; font-size: calc(${boxSize} * 0.6); display: none;"\<close>
\<close>

definition CFCheckbox_check_style :: "attrs \<Rightarrow> string" where
  "CFCheckbox_check_style el =
     (let boxSize = attr_or el ''box-size'' ''20px'';
          checkColor = attr_or el ''check-color'' ''#ffffff''
      in ''color: '' @ checkColor @ ''; font-size: calc('' @ boxSize @ '' * 0.6); display: none;'')"

section \<open>Document tree\<close>

text \<open>
  An element has a tag name, its attributes in source order and its children; a renderer
  reads the attributes and the children of its element (\<open>innerHTML\<close>) and replaces the
  element by the markup it assigns to \<open>outerHTML\<close>. The markup is kept as the tree it
  parses to. The white space between the tags of a template is left out, and attribute
  values are taken to be free of the double quote that would end them early.
\<close>

datatype node = Text string | El string attrs "node list"

text \<open>
  \<open>buildAnimationAttrs(el)\<close>: nothing without an \<open>animation\<close> attribute, nine data
  attributes with one.
\<close>

definition bool_str :: "bool \<Rightarrow> string" where
  "bool_str b = (if b then ''true'' else ''false'')"

definition buildAnimationAttrs :: "attrs \<Rightarrow> attrs" where
  "buildAnimationAttrs el =
     (if \<not> truthy (of_attr (attr el ''animation'')) then []
      else
        [(''data-skip-animation-settings'', ''false''),
         (''data-animation-type'', str_of (attr el ''animation'')),
         (''data-animation-time'', attr_or el ''animation-time'' ''1000''),
         (''data-animation-delay'', attr_or el ''animation-delay'' ''0''),
         (''data-animation-trigger'', attr_or el ''animation-trigger'' ''load''),
         (''data-animation-timing-function'', attr_or el ''animation-timing'' ''ease''),
         (''data-animation-direction'', attr_or el ''animation-direction'' ''normal''),
         (''data-animation-once'', bool_str (attr_or el ''animation-once'' ''true'' = ''true'')),
         (''data-animation-loop'', bool_str (attr_or el ''animation-loop'' ''false'' = ''true''))])"

text \<open>\<open>if (c) dataAttrs += ` name="v"`\<close>, and the same with \<open>c\<close> the truthiness of \<open>v\<close>.\<close>

definition when_attr :: "bool \<Rightarrow> string \<Rightarrow> string \<Rightarrow> attrs" where
  "when_attr c name v = (if c then [(name, v)] else [])"

definition opt_attr :: "string \<Rightarrow> string option \<Rightarrow> attrs" where
  "opt_attr name v = when_attr (truthy (of_attr v)) name (str_of v)"

text \<open>\<open>if (c) styles[k] = v\<close>, and the same with \<open>c\<close> the truthiness of \<open>v\<close>.\<close>

definition set_when :: "bool \<Rightarrow> string \<Rightarrow> jsval \<Rightarrow> style_obj \<Rightarrow> style_obj" where
  "set_when c k v styleObj = (if c then set_prop k v styleObj else styleObj)"

definition set_if :: "string \<Rightarrow> string option \<Rightarrow> style_obj \<Rightarrow> style_obj" where
  "set_if k v styleObj = set_when (truthy (of_attr v)) k (of_attr v) styleObj"

section \<open>Text elements\<close>

text \<open>
  \<open>cf-headline\<close>, \<open>cf-subheadline\<close> and \<open>cf-paragraph\<close> share one shape; what differs is
  the typescale they read, their defaults and the data type they emit.
\<close>

text \<open>
  \<open>styleguideManager.resolveSize(size, type) || resolve(size, FONT_SIZES) || size\<close>
\<close>

definition resolvedSize :: "styleguide option \<Rightarrow> string \<Rightarrow> string \<Rightarrow> jsval" where
  "resolvedSize data elementType sz =
     js_or (resolveSize data sz elementType) (js_or (resolve (Some sz) FONT_SIZES) (Str sz))"

definition text_styles :: "styleguide option \<Rightarrow> string \<Rightarrow> string \<Rightarrow> string \<Rightarrow> string \<Rightarrow> attrs \<Rightarrow> style_obj" where
  "text_styles data elementType size_default weight_default leading_default el =
     (let sz = attr_or el ''size'' size_default;
          weight = attr_or el ''weight'' weight_default;
          font = attr el ''font'';
          color = attr el ''color'';
          hasExplicitColor = hasAttribute el ''color'';
          align = attr_or el ''align'' ''center'';
          leading = attr_or el ''leading'' leading_default;
          tracking = attr el ''tracking'';
          transform = attr el ''transform'';
          textStyles =
            [(''margin'', Str ''0''),
             (''font-size'', resolvedSize data elementType sz),
             (''font-weight'', js_or (resolve (Some weight) FONT_WEIGHTS) (Str weight)),
             (''text-align'', Str align),
             (''line-height'', js_or (resolve (Some leading) LINE_HEIGHTS) (Str leading))];
          textStyles = set_when (hasExplicitColor \<and> truthy (of_attr color))
                         ''color'' (Str (str_of color @ '' !important'')) textStyles;
          textStyles = set_if ''font-family'' font textStyles;
          textStyles = set_if ''letter-spacing'' tracking textStyles;
          textStyles = set_if ''text-transform'' transform textStyles
      in textStyles)"

text \<open>The data attributes the three text elements share, up to \<open>data-mt\<close>.\<close>

definition text_dataAttrs :: "string \<Rightarrow> string \<Rightarrow> string \<Rightarrow> string \<Rightarrow> attrs \<Rightarrow> attrs" where
  "text_dataAttrs dataType size_default weight_default leading_default el =
     (let sz = attr_or el ''size'' size_default;
          weight = attr_or el ''weight'' weight_default;
          font = attr el ''font'';
          color = attr el ''color'';
          hasExplicitColor = hasAttribute el ''color'';
          align = attr_or el ''align'' ''center'';
          leading = attr_or el ''leading'' leading_default;
          tracking = attr el ''tracking'';
          transform = attr el ''transform'';
          pt = attr_or el ''pt'' ''0'';
          pb = attr_or el ''pb'' ''0'';
          mt = attr_or el ''mt'' ''0''
      in [(''data-type'', dataType), (''data-size'', sz), (''data-weight'', weight)]
         @ (if hasExplicitColor \<and> truthy (of_attr color)
            then [(''data-color'', str_of color), (''data-color-explicit'', ''true'')] else [])
         @ [(''data-align'', align), (''data-leading'', leading)]
         @ opt_attr ''data-font'' font
         @ opt_attr ''data-tracking'' tracking
         @ opt_attr ''data-transform'' transform
         @ when_attr (pt \<noteq> ''0'') ''data-pt'' pt
         @ when_attr (pb \<noteq> ''0'') ''data-pb'' pb
         @ when_attr (mt \<noteq> ''0'') ''data-mt'' mt)"

definition icon_dataAttrs :: "attrs \<Rightarrow> attrs" where
  "icon_dataAttrs el =
     (let icon = attr el ''icon''; iconAlign = attr_or el ''icon-align'' ''left''
      in opt_attr ''data-icon'' icon
         @ when_attr (truthy (of_attr icon) \<and> iconAlign \<noteq> ''left'')
             ''data-icon-align'' iconAlign)"

text \<open>\<open>textWithIcon\<close>: the content with the icon before or after it.\<close>

definition textWithIcon :: "attrs \<Rightarrow> node list \<Rightarrow> node list" where
  "textWithIcon el content =
     (let icon = attr el ''icon''; iconAlign = attr_or el ''icon-align'' ''left'';
          iconHtml =
            (if truthy (of_attr icon)
             then [El ''i'' [(''class'', str_of icon),
                             (''style'', if iconAlign = ''left'' then ''margin-right: 8px;''
                                         else ''margin-left: 8px;'')] []]
             else [])
      in if iconAlign = ''left'' then iconHtml @ content else content @ iconHtml)"

subsection \<open>\<open>cf-headline\<close>\<close>

definition CFHeadline_textStyles :: "styleguide option \<Rightarrow> attrs \<Rightarrow> style_obj" where
  "CFHeadline_textStyles data el = text_styles data ''headline'' ''48px'' ''bold'' ''tight'' el"

definition CFHeadline_wrapperStyles :: "attrs \<Rightarrow> style_obj" where
  "CFHeadline_wrapperStyles el =
     [(''padding-top'', Str (attr_or el ''pt'' ''0'')),
      (''padding-bottom'', Str (attr_or el ''pb'' ''0'')),
      (''margin-top'', js_or (Str (attr_or el ''mt'' ''0'')) (Str ''20px'')),
      (''box-sizing'', Str ''border-box'')]"

definition CFHeadline_dataAttrs :: "attrs \<Rightarrow> attrs" where
  "CFHeadline_dataAttrs el =
     text_dataAttrs ''Headline/V1'' ''48px'' ''bold'' ''tight'' el
     @ icon_dataAttrs el @ buildAnimationAttrs el"

definition CFHeadline_render :: "styleguide option \<Rightarrow> attrs \<Rightarrow> node list \<Rightarrow> node list" where
  "CFHeadline_render data el content =
     [El ''div'' (CFHeadline_dataAttrs el @ [(''style'', buildStyle (CFHeadline_wrapperStyles el))])
        [El (attr_or el ''tag'' ''h1'') [(''style'', buildStyle (CFHeadline_textStyles data el))]
           (textWithIcon el content)]]"

subsection \<open>\<open>cf-subheadline\<close>\<close>

definition CFSubheadline_textStyles :: "styleguide option \<Rightarrow> attrs \<Rightarrow> style_obj" where
  "CFSubheadline_textStyles data el =
     text_styles data ''subheadline'' ''24px'' ''normal'' ''relaxed'' el"

definition CFSubheadline_wrapperStyles :: "attrs \<Rightarrow> style_obj" where
  "CFSubheadline_wrapperStyles el =
     [(''padding-top'', Str (attr_or el ''pt'' ''0'')),
      (''padding-bottom'', Str (attr_or el ''pb'' ''0'')),
      (''margin-top'', Str (attr_or el ''mt'' ''0'')),
      (''box-sizing'', Str ''border-box'')]"

definition CFSubheadline_dataAttrs :: "attrs \<Rightarrow> attrs" where
  "CFSubheadline_dataAttrs el =
     text_dataAttrs ''SubHeadline/V1'' ''24px'' ''normal'' ''relaxed'' el
     @ icon_dataAttrs el @ buildAnimationAttrs el"

definition CFSubheadline_render :: "styleguide option \<Rightarrow> attrs \<Rightarrow> node list \<Rightarrow> node list" where
  "CFSubheadline_render data el content =
     [El ''div''
        (CFSubheadline_dataAttrs el @ [(''style'', buildStyle (CFSubheadline_wrapperStyles el))])
        [El (attr_or el ''tag'' ''h2'') [(''style'', buildStyle (CFSubheadline_textStyles data el))]
           (textWithIcon el content)]]"

subsection \<open>\<open>cf-paragraph\<close>\<close>

definition CFParagraph_textStyles :: "styleguide option \<Rightarrow> attrs \<Rightarrow> style_obj" where
  "CFParagraph_textStyles data el =
     text_styles data ''paragraph'' ''16px'' ''normal'' ''relaxed'' el"

definition CFParagraph_wrapperStyles :: "attrs \<Rightarrow> style_obj" where
  "CFParagraph_wrapperStyles el =
     (let wrapperStyles =
            [(''padding-top'', Str (attr_or el ''pt'' ''0'')),
             (''padding-bottom'', Str (attr_or el ''pb'' ''0'')),
             (''margin-top'', Str (attr_or el ''mt'' ''0'')),
             (''box-sizing'', Str ''border-box'')];
          wrapperStyles = set_if ''background-color'' (attr el ''bg'') wrapperStyles;
          wrapperStyles = set_if ''padding-left'' (attr el ''px'') wrapperStyles;
          wrapperStyles = set_if ''padding-right'' (attr el ''px'') wrapperStyles
      in wrapperStyles)"

definition CFParagraph_dataAttrs :: "attrs \<Rightarrow> attrs" where
  "CFParagraph_dataAttrs el =
     text_dataAttrs ''Paragraph/V1'' ''16px'' ''normal'' ''relaxed'' el
     @ opt_attr ''data-px'' (attr el ''px'')
     @ opt_attr ''data-bg'' (attr el ''bg'')
     @ icon_dataAttrs el @ buildAnimationAttrs el"

definition CFParagraph_render :: "styleguide option \<Rightarrow> attrs \<Rightarrow> node list \<Rightarrow> node list" where
  "CFParagraph_render data el content =
     [El ''div''
        (CFParagraph_dataAttrs el @ [(''style'', buildStyle (CFParagraph_wrapperStyles el))])
        [El ''p'' [(''style'', buildStyle (CFParagraph_textStyles data el))]
           (textWithIcon el content)]]"

section \<open>Brand assets\<close>

text \<open>
  The brand assets map an asset type to its list of URLs. \<open>brand_url\<close> is what the
  renderers do with it: \<open>hasAsset\<close>, then \<open>getAssetUrl\<close>, then the truthiness of the URL.
  (An asset type that only names an inherited member of the object has nothing at index
  0, so it ends like a type that is not there.)
\<close>

type_synonym brand_assets = "(string \<times> string list) list"

definition hasAsset :: "brand_assets option \<Rightarrow> string \<Rightarrow> bool" where
  "hasAsset assets assetType =
     (case assets of
        None \<Rightarrow> False
      | Some d \<Rightarrow> (case map_of d assetType of Some urls \<Rightarrow> urls \<noteq> [] | None \<Rightarrow> False))"

definition getAssetUrl :: "brand_assets option \<Rightarrow> string \<Rightarrow> string option" where
  "getAssetUrl assets assetType =
     (case assets of
        None \<Rightarrow> None
      | Some d \<Rightarrow> (case map_of d assetType of Some (u # us) \<Rightarrow> Some u | _ \<Rightarrow> None))"

definition brand_url :: "brand_assets option \<Rightarrow> string option \<Rightarrow> string option \<Rightarrow> string option" where
  "brand_url assets brandAsset fallback =
     (if truthy (of_attr brandAsset) \<and> hasAsset assets (str_of brandAsset)
         \<and> truthy (of_attr (getAssetUrl assets (str_of brandAsset)))
      then getAssetUrl assets (str_of brandAsset) else fallback)"

definition getBgStyleClass :: "string option \<Rightarrow> jsval" where
  "getBgStyleClass bgStyle =
     (if \<not> truthy (of_attr bgStyle) then Str ''bgCoverCenter''
      else js_or (js_get BG_STYLE_CLASSES (str_of bgStyle)) (of_attr bgStyle))"

text \<open>
  \<open>extractYouTubeVideoId(url)\<close>: the first place where one of the three URL forms is
  followed by at least one character other than \<open>&\<close>, \<open>?\<close> and white space.
\<close>

definition id_char :: "char \<Rightarrow> bool" where
  "id_char c = (c \<notin> set ''&?'' \<and> c \<notin> set [CHR '' '', CHR 0x09, CHR 0x0A, CHR 0x0B, CHR 0x0C, CHR 0x0D])"

fun video_id_here :: "string list \<Rightarrow> string \<Rightarrow> string option" where
  "video_id_here [] s = None"
| "video_id_here (form # forms) s =
     (if prefix form s \<and> takeWhile id_char (drop (length form) s) \<noteq> []
      then Some (takeWhile id_char (drop (length form) s))
      else video_id_here forms s)"

fun video_id_from :: "string \<Rightarrow> string option" where
  "video_id_from [] = None"
| "video_id_from (c # cs) =
     (case video_id_here [''youtube.com/watch?v='', ''youtu.be/'', ''youtube.com/embed/''] (c # cs) of
        Some i \<Rightarrow> Some i
      | None \<Rightarrow> video_id_from cs)"

definition extractYouTubeVideoId :: "string option \<Rightarrow> string option" where
  "extractYouTubeVideoId url =
     (if \<not> truthy (of_attr url) then None else video_id_from (str_of url))"

section \<open>Layout components\<close>

text \<open>
  The three flags every container that knows the styleguide computes first:
  \<open>shadow && styleguideManager.isStyleguideRef(shadow, "shadow")\<close> and its two siblings.
\<close>

definition isShadowStyleguide :: "styleguide option \<Rightarrow> attrs \<Rightarrow> bool" where
  "isShadowStyleguide data el =
     (truthy (of_attr (attr el ''shadow'')) \<and> isStyleguideRef data (attr el ''shadow'') ''shadow'')"

definition isBorderStyleguide :: "styleguide option \<Rightarrow> attrs \<Rightarrow> bool" where
  "isBorderStyleguide data el =
     (truthy (of_attr (attr el ''border'')) \<and> isStyleguideRef data (attr el ''border'') ''border'')"

definition isCornerStyleguide :: "styleguide option \<Rightarrow> attrs \<Rightarrow> bool" where
  "isCornerStyleguide data el =
     (truthy (of_attr (attr el ''corner'')) \<and> isStyleguideRef data (attr el ''corner'') ''corner'')"

definition styleguide_dataAttrs :: "styleguide option \<Rightarrow> attrs \<Rightarrow> attrs" where
  "styleguide_dataAttrs data el =
     when_attr (isShadowStyleguide data el) ''data-style-guide-shadow'' (str_of (attr el ''shadow''))
     @ when_attr (isBorderStyleguide data el) ''data-style-guide-border'' (str_of (attr el ''border''))
     @ when_attr (isCornerStyleguide data el) ''data-style-guide-corner'' (str_of (attr el ''corner''))"

text \<open>\<open>a || b\<close> on two attributes.\<close>

definition attr_or_attr :: "string option \<Rightarrow> string option \<Rightarrow> string option" where
  "attr_or_attr a b = (if truthy (of_attr a) then a else b)"

text \<open>The overlay layer and the wrapper that lifts the content above it.\<close>

definition overlay_nodes :: "string \<Rightarrow> string option \<Rightarrow> node list \<Rightarrow> node list" where
  "overlay_nodes wrapper_style overlay content =
     (if truthy (of_attr overlay)
      then [El ''div''
              [(''class'', ''cf-overlay''),
               (''style'', ''position:absolute;inset:0;background:'' @ str_of overlay
                           @ '';pointer-events:none;z-index:1;border-radius:inherit;'')] [],
            El ''div'' [(''style'', wrapper_style)] content]
      else content)"

subsection \<open>\<open>cf-section\<close>\<close>

definition CFSection_styles :: "styleguide option \<Rightarrow> brand_assets option \<Rightarrow> attrs \<Rightarrow> style_obj" where
  "CFSection_styles data assets el =
     (let container = attr_or el ''container'' ''full'';
          bg = attr el ''bg'';
          bgImage = brand_url assets (attr el ''brand-asset'') (attr el ''bg-image'');
          gradient = attr el ''gradient'';
          paint = attr el ''paint'';
          px = attr_or el ''px'' ''0'';
          shadow = attr el ''shadow'';
          rounded = attr_or_attr (attr el ''rounded'') (attr el ''data-popup-rounded'');
          corner = attr el ''corner'';
          border = attr el ''border'';
          containerWidth = js_or (resolve (Some container) CONTAINER_WIDTHS) (Str ''1170px'');
          styles =
            [(''width'', Str ''100%''),
             (''max-width'', containerWidth),
             (''margin-left'', Str ''auto''),
             (''margin-right'', Str ''auto''),
             (''position'', Str ''relative''),
             (''padding-top'', Str (attr_or el ''pt'' ''64px'')),
             (''padding-bottom'', Str (attr_or el ''pb'' ''64px'')),
             (''padding-left'', Str px),
             (''padding-right'', Str px),
             (''box-sizing'', Str ''border-box'')];
          styles = set_when (\<not> truthy (of_attr paint) \<and> truthy (of_attr gradient))
                     ''background'' (of_attr gradient) styles;
          styles = set_when (\<not> truthy (of_attr paint) \<and> \<not> truthy (of_attr gradient)
                             \<and> truthy (of_attr bg))
                     ''background-color'' (of_attr bg) styles;
          styles = set_when (truthy (of_attr bgImage))
                     ''background-image'' (Str (''url('' @ str_of bgImage @ '')'')) styles;
          styles = set_if ''margin-top'' (attr el ''mt'') styles;
          styles = set_when (truthy (of_attr shadow) \<and> \<not> isShadowStyleguide data el)
                     ''box-shadow'' (js_or (resolve shadow SHADOWS) (of_attr shadow)) styles;
          styles = set_when (\<not> (truthy (of_attr corner) \<and> isCornerStyleguide data el)
                             \<and> truthy (of_attr rounded))
                     ''border-radius'' (js_or (resolve rounded RADIUS) (of_attr rounded)) styles;
          styles = set_when (truthy (of_attr border) \<and> \<not> isBorderStyleguide data el)
                     ''border-width'' (js_or (resolve border BORDER_WIDTHS) (of_attr border)) styles;
          styles = set_when (truthy (of_attr border) \<and> \<not> isBorderStyleguide data el)
                     ''border-style'' (Str (attr_or el ''border-style'' ''solid'')) styles;
          styles = set_if ''border-color'' (attr el ''border-color'') styles
      in styles)"

definition section_bgStyleClass :: "brand_assets option \<Rightarrow> attrs \<Rightarrow> jsval" where
  "section_bgStyleClass assets el =
     (if truthy (of_attr (brand_url assets (attr el ''brand-asset'') (attr el ''bg-image'')))
      then getBgStyleClass (attr el ''bg-style'') else Str [])"

definition video_dataAttrs :: "attrs \<Rightarrow> attrs" where
  "video_dataAttrs el =
     (let videoBg = attr el ''video-bg'';
          videoBgHideMobile = attr_or el ''video-bg-hide-mobile'' ''true'';
          bg = attr el ''bg'';
          videoOverlayColor = attr_or_attr (attr el ''video-bg-overlay'') (attr el ''overlay'');
          videoOverlayColor =
            (if \<not> truthy (of_attr videoOverlayColor) \<and> truthy (of_attr bg) \<and> prefix ''rgba'' (str_of bg)
             then bg else videoOverlayColor)
      in if truthy (of_attr videoBg) \<and> extractYouTubeVideoId videoBg \<noteq> None
         then [(''data-video-bg-url'', str_of videoBg),
               (''data-video-bg-type'', ''youtube''),
               (''data-video-bg-thumbnail'',
                  ''https://img.youtube.com/vi/'' @ str_of (extractYouTubeVideoId videoBg)
                  @ ''/maxresdefault.jpg''),
               (''data-video-bg-hide-mobile'', bool_str (videoBgHideMobile = ''true'')),
               (''data-video-bg-style'', attr_or el ''video-bg-style'' ''fill'')]
              @ opt_attr ''data-video-bg-overlay'' videoOverlayColor
         else [])"

definition CFSection_dataAttrs :: "styleguide option \<Rightarrow> brand_assets option \<Rightarrow> attrs \<Rightarrow> attrs" where
  "CFSection_dataAttrs data assets el =
     [(''data-type'', ''SectionContainer/V1''),
      (''data-container'', attr_or el ''container'' ''full'')]
     @ opt_attr ''data-show'' (attr el ''show'')
     @ when_attr (truthy (section_bgStyleClass assets el)) ''data-bg-style''
         (to_string (section_bgStyleClass assets el))
     @ opt_attr ''data-overlay'' (attr el ''overlay'')
     @ opt_attr ''data-bg-image'' (attr el ''bg-image'')
     @ opt_attr ''data-brand-asset'' (attr el ''brand-asset'')
     @ opt_attr ''data-paint-colors'' (attr el ''paint'')
     @ styleguide_dataAttrs data el
     @ video_dataAttrs el"

definition CFSection_render :: "styleguide option \<Rightarrow> brand_assets option \<Rightarrow> attrs \<Rightarrow> node list \<Rightarrow> node list" where
  "CFSection_render data assets el content =
     [El ''section''
        (opt_attr ''id'' (attr el ''element-id'')
         @ when_attr (truthy (section_bgStyleClass assets el)) ''class''
             (to_string (section_bgStyleClass assets el))
         @ CFSection_dataAttrs data assets el
         @ [(''style'', buildStyle (CFSection_styles data assets el))])
        (overlay_nodes ''position:relative;z-index:2;'' (attr el ''overlay'') content)]"

subsection \<open>\<open>cf-flex\<close>\<close>

text \<open>
  \<open>parseFloat\<close>: leading white space, a sign, then \<open>Infinity\<close> or decimal digits with an
  optional fraction and exponent; \<open>NaN\<close> when no digit is found.
\<close>

definition is_space :: "char \<Rightarrow> bool" where
  "is_space c = (c \<in> set [CHR '' '', CHR 0x09, CHR 0x0A, CHR 0x0B, CHR 0x0C, CHR 0x0D])"

definition is_digit :: "char \<Rightarrow> bool" where
  "is_digit c = (c \<in> set ''0123456789'')"

definition digits_val :: "string \<Rightarrow> nat" where
  "digits_val ds = foldl (\<lambda>n c. 10 * n + (of_char c - 48)) 0 ds"

definition scale10 :: "rat \<Rightarrow> bool \<Rightarrow> nat \<Rightarrow> rat" where
  "scale10 m neg e = (if neg then m / 10 ^ e else m * 10 ^ e)"

definition exponent_part :: "string \<Rightarrow> bool \<times> nat" where
  "exponent_part s =
     (case s of
        [] \<Rightarrow> (False, 0)
      | c # r \<Rightarrow>
          if c = CHR ''e'' \<or> c = CHR ''E''
          then (case r of
                  [] \<Rightarrow> (False, 0)
                | d # r' \<Rightarrow>
                    if d = CHR ''-'' \<and> takeWhile is_digit r' \<noteq> []
                      then (True, digits_val (takeWhile is_digit r'))
                    else if d = CHR ''+'' \<and> takeWhile is_digit r' \<noteq> []
                      then (False, digits_val (takeWhile is_digit r'))
                    else if takeWhile is_digit r \<noteq> []
                      then (False, digits_val (takeWhile is_digit r))
                    else (False, 0))
          else (False, 0))"

definition unsigned_literal :: "string \<Rightarrow> jsnum" where
  "unsigned_literal s =
     (if prefix ''Infinity'' s then PosInf
      else
        (let ip = takeWhile is_digit s;
             r1 = dropWhile is_digit s;
             fp = (case r1 of c # r \<Rightarrow> if c = CHR ''.'' then takeWhile is_digit r else [] | [] \<Rightarrow> []);
             r2 = (case r1 of c # r \<Rightarrow> if c = CHR ''.'' then dropWhile is_digit r else r1 | [] \<Rightarrow> [])
         in if ip = [] \<and> fp = [] then NaN
            else (let (neg, e) = exponent_part r2
                  in Num (scale10 (of_nat (digits_val ip) + of_nat (digits_val fp) / 10 ^ length fp)
                            neg e))))"

fun js_neg :: "jsnum \<Rightarrow> jsnum" where
  "js_neg (Num q) = Num (- q)"
| "js_neg PosInf = NegInf"
| "js_neg NegInf = PosInf"
| "js_neg NaN = NaN"

definition parseFloat :: "string \<Rightarrow> jsnum" where
  "parseFloat s =
     (case dropWhile is_space s of
        [] \<Rightarrow> NaN
      | c # r \<Rightarrow>
          if c = CHR ''-'' then js_neg (unsigned_literal r)
          else if c = CHR ''+'' then unsigned_literal r
          else unsigned_literal (c # r))"

text \<open>\<open>x / 16\<close> for a number \<open>x\<close>.\<close>

fun div16 :: "jsnum \<Rightarrow> jsnum" where
  "div16 (Num q) = Num (q / 16)"
| "div16 x = x"

text \<open>
  The gap of a flex container: a length in \<open>px\<close> is converted to \<open>em\<close> at 16 to 1, another
  value is kept, and an absent or empty one is \<open>1.5em\<close>.
\<close>

definition flex_gap :: "string option \<Rightarrow> string" where
  "flex_gap gap =
     (if truthy (of_attr gap)
      then (if suffix ''px'' (str_of gap) then num_str (div16 (parseFloat (str_of gap))) @ ''em''
            else str_of gap)
      else ''1.5em'')"

definition flexDirection :: "string \<Rightarrow> string" where
  "flexDirection direction =
     to_string (js_or (js_get [(''row'', ''row''), (''col'', ''column''),
                                (''row-reverse'', ''row-reverse''),
                                (''col-reverse'', ''column-reverse'')] direction)
                      (Str ''row''))"

definition justifyContent :: "string \<Rightarrow> string" where
  "justifyContent justify =
     to_string (js_or (js_get [(''start'', ''flex-start''), (''center'', ''center''),
                                (''end'', ''flex-end''), (''between'', ''space-between''),
                                (''around'', ''space-around''), (''evenly'', ''space-evenly'')] justify)
                      (Str ''flex-start''))"

definition alignItems :: "string \<Rightarrow> string" where
  "alignItems items =
     to_string (js_or (js_get [(''start'', ''flex-start''), (''center'', ''center''),
                                (''end'', ''flex-end''), (''stretch'', ''stretch''),
                                (''baseline'', ''baseline'')] items)
                      (Str ''center''))"

definition flex_wrap :: "attrs \<Rightarrow> bool" where
  "flex_wrap el = (attr el ''wrap'' = Some ''true'' \<or> attr el ''wrap'' = Some [])"

definition CFFlex_styles :: "styleguide option \<Rightarrow> attrs \<Rightarrow> style_obj" where
  "CFFlex_styles data el =
     (let bg = attr el ''bg'';
          gradient = attr el ''gradient'';
          paint = attr el ''paint'';
          p = attr el ''p'';
          px = attr el ''px'';
          py = attr el ''py'';
          shadow = attr el ''shadow'';
          rounded = attr el ''rounded'';
          corner = attr el ''corner'';
          border = attr el ''border'';
          styles =
            [(''display'', Str ''flex''),
             (''flex-direction'', Str (flexDirection (attr_or el ''direction'' ''row''))),
             (''justify-content'', Str (justifyContent (attr_or el ''justify'' ''start''))),
             (''align-items'', Str (alignItems (attr_or el ''items'' ''start''))),
             (''box-sizing'', Str ''border-box''),
             (''margin-left'', Str ''auto''),
             (''margin-right'', Str ''auto'')];
          styles = set_when (flex_wrap el) ''flex-wrap'' (Str ''wrap'') styles;
          styles = set_prop ''gap'' (Str (flex_gap (attr el ''gap''))) styles;
          styles = set_when (\<not> truthy (of_attr paint) \<and> truthy (of_attr gradient))
                     ''background'' (of_attr gradient) styles;
          styles = set_when (\<not> truthy (of_attr paint) \<and> \<not> truthy (of_attr gradient)
                             \<and> truthy (of_attr bg))
                     ''background-color'' (of_attr bg) styles;
          styles = set_if ''padding-top'' p styles;
          styles = set_if ''padding-bottom'' p styles;
          styles = set_if ''padding-left'' p styles;
          styles = set_if ''padding-right'' p styles;
          styles = set_if ''padding-left'' px styles;
          styles = set_if ''padding-right'' px styles;
          styles = set_if ''padding-top'' py styles;
          styles = set_if ''padding-bottom'' py styles;
          styles = set_if ''padding-top'' (attr el ''pt'') styles;
          styles = set_if ''padding-bottom'' (attr el ''pb'') styles;
          styles = set_if ''margin-top'' (attr el ''mt'') styles;
          styles = set_when (truthy (of_attr shadow) \<and> \<not> isShadowStyleguide data el)
                     ''box-shadow'' (js_or (resolve shadow SHADOWS) (of_attr shadow)) styles;
          styles = set_when (\<not> isCornerStyleguide data el
                             \<and> truthy (of_attr (attr_or_attr rounded corner)))
                     ''border-radius''
                     (js_or (resolve (attr_or_attr rounded corner) RADIUS)
                        (of_attr (attr_or_attr rounded corner))) styles;
          styles = set_when (truthy (of_attr border) \<and> \<not> isBorderStyleguide data el)
                     ''border-width'' (js_or (resolve border BORDER_WIDTHS) (of_attr border)) styles;
          styles = set_when (truthy (of_attr border) \<and> \<not> isBorderStyleguide data el)
                     ''border-style'' (Str (attr_or el ''border-style'' ''solid'')) styles;
          styles = set_if ''border-color'' (attr el ''border-color'') styles;
          styles = set_if ''width'' (attr el ''width'') styles;
          styles = set_if ''height'' (attr el ''height'') styles
      in styles)"

definition CFFlex_dataAttrs :: "styleguide option \<Rightarrow> attrs \<Rightarrow> attrs" where
  "CFFlex_dataAttrs data el =
     [(''data-type'', ''FlexContainer/V1'')]
     @ opt_attr ''data-show'' (attr el ''show'')
     @ [(''data-direction'', attr_or el ''direction'' ''row''),
        (''data-justify'', attr_or el ''justify'' ''start''),
        (''data-items'', attr_or el ''items'' ''start'')]
     @ when_attr (flex_wrap el) ''data-wrap'' ''true''
     @ [(''data-gap'', to_string (style_get (CFFlex_styles data el) ''gap''))]
     @ opt_attr ''data-width'' (attr el ''width'')
     @ opt_attr ''data-height'' (attr el ''height'')
     @ opt_attr ''data-paint-colors'' (attr el ''paint'')
     @ styleguide_dataAttrs data el"

definition CFFlex_render :: "styleguide option \<Rightarrow> attrs \<Rightarrow> node list \<Rightarrow> node list" where
  "CFFlex_render data el content =
     [El ''div''
        (opt_attr ''id'' (attr el ''element-id'')
         @ CFFlex_dataAttrs data el
         @ [(''style'', buildStyle (CFFlex_styles data el))])
        content]"

subsection \<open>\<open>cf-popup\<close>\<close>

definition CFPopup_modalStyles :: "attrs \<Rightarrow> style_obj" where
  "CFPopup_modalStyles el =
     (let rounded = attr_or el ''rounded'' ''16px'';
          border = attr el ''border'';
          shadow = attr el ''shadow'';
          modalStyles =
            [(''max-width'', Str ''100%''),
             (''margin-top'', Str (attr_or el ''mt'' ''45px'')),
             (''margin-bottom'', Str (attr_or el ''mb'' ''10px'')),
             (''margin-left'', Str ''auto''),
             (''margin-right'', Str ''auto''),
             (''border-radius'', js_or (resolve (Some rounded) RADIUS) (Str rounded)),
             (''background-color'', Str ''#ffffff''),
             (''position'', Str ''relative''),
             (''box-sizing'', Str ''border-box'')];
          modalStyles = set_when (truthy (of_attr border)) ''border-width''
                          (js_or (resolve border BORDER_WIDTHS) (of_attr border)) modalStyles;
          modalStyles = set_when (truthy (of_attr border)) ''border-style'' (Str ''solid'') modalStyles;
          modalStyles = set_when (truthy (of_attr border)) ''border-color''
                          (Str (attr_or el ''border-color'' ''#000000'')) modalStyles;
          modalStyles = set_when (truthy (of_attr shadow)) ''box-shadow''
                          (js_or (resolve shadow SHADOWS) (of_attr shadow)) modalStyles
      in modalStyles)"

definition CFPopup_innerStyles :: "attrs \<Rightarrow> style_obj" where
  "CFPopup_innerStyles el =
     [(''width'', Str (attr_or el ''width'' ''750px'')),
      (''max-width'', Str ''100%''),
      (''margin-left'', Str ''auto''),
      (''margin-right'', Str ''auto'')]"

definition CFPopup_wrapperStyles :: "attrs \<Rightarrow> style_obj" where
  "CFPopup_wrapperStyles el =
     [(''position'', Str ''fixed''),
      (''inset'', Str ''0''),
      (''background-color'', Str (attr_or el ''overlay'' ''rgba(0,0,0,0.5)'')),
      (''display'', Str ''none''),
      (''align-items'', Str ''flex-start''),
      (''justify-content'', Str ''center''),
      (''overflow-y'', Str ''auto''),
      (''z-index'', Str ''9999''),
      (''padding-left'', Str (attr_or el ''px'' ''0'')),
      (''padding-right'', Str (attr_or el ''px'' ''0''))]"

definition CFPopup_dataAttrs :: "attrs \<Rightarrow> attrs" where
  "CFPopup_dataAttrs el =
     [(''data-type'', ''ModalContainer/V1''),
      (''data-popup-width'', attr_or el ''width'' ''750px''),
      (''data-popup-overlay'', attr_or el ''overlay'' ''rgba(0,0,0,0.5)''),
      (''data-popup-rounded'', attr_or el ''rounded'' ''16px'')]
     @ opt_attr ''data-popup-border'' (attr el ''border'')
     @ opt_attr ''data-popup-border-color'' (Some (attr_or el ''border-color'' ''#000000''))
     @ opt_attr ''data-popup-shadow'' (attr el ''shadow'')"

text \<open>
  \<open>content.replace(/<cf-section/i, ...)\<close>: the first element of the content, in document
  order, whose tag begins with \<open>cf-section\<close> receives the resolved radius as its first
  attribute.
\<close>

fun mark_first_node :: "string \<Rightarrow> node \<Rightarrow> node \<times> bool"
  and mark_first :: "string \<Rightarrow> node list \<Rightarrow> node list \<times> bool" where
  "mark_first_node r (Text s) = (Text s, False)"
| "mark_first_node r (El t a cs) =
     (if prefix ''cf-section'' t then (El t ((''data-popup-rounded'', r) # a) cs, True)
      else (let (cs', found) = mark_first r cs in (El t a cs', found)))"
| "mark_first r [] = ([], False)"
| "mark_first r (n # ns) =
     (let (n', found) = mark_first_node r n
      in if found then (n' # ns, True)
         else (let (ns', found') = mark_first r ns in (n' # ns', found')))"

text \<open>The close button of the popup (its click handler is left out).\<close>

definition close_button :: node where
  "close_button =
     El ''button''
       [(''class'', ''cf-popup-close''),
        (''style'', ''position:absolute;top:-12px;right:-12px;width:28px;height:28px;border:none;background:#000000;border-radius:50%;cursor:pointer;display:flex;align-items:center;justify-content:center;z-index:10;box-shadow:0 2px 8px rgba(0,0,0,0.3);'')]
       [El ''svg''
          [(''width'', ''14''), (''height'', ''14''), (''viewBox'', ''0 0 24 24''), (''fill'', ''none''),
           (''stroke'', ''#ffffff''), (''stroke-width'', ''2.5''), (''stroke-linecap'', ''round''),
           (''stroke-linejoin'', ''round'')]
          [El ''line'' [(''x1'', ''18''), (''y1'', ''6''), (''x2'', ''6''), (''y2'', ''18'')] [],
           El ''line'' [(''x1'', ''6''), (''y1'', ''6''), (''x2'', ''18''), (''y2'', ''18'')] []]]"

definition CFPopup_render :: "attrs \<Rightarrow> node list \<Rightarrow> node list" where
  "CFPopup_render el content =
     (let rounded = attr_or el ''rounded'' ''16px'';
          resolvedRounded = js_or (resolve (Some rounded) RADIUS) (Str rounded);
          contentWithRounded = fst (mark_first (to_string resolvedRounded) content)
      in [El ''div''
            ([(''class'', ''cf-popup-wrapper'')] @ CFPopup_dataAttrs el
             @ [(''style'', buildStyle (CFPopup_wrapperStyles el))])
            [El ''div''
               [(''class'', ''cf-popup-modal containerModal''),
                (''style'', buildStyle (CFPopup_modalStyles el))]
               [close_button,
                El ''div''
                  [(''class'', ''elModalInnerContainer''),
                   (''style'', buildStyle (CFPopup_innerStyles el))]
                  contentWithRounded]]])"

section \<open>Media elements\<close>

subsection \<open>\<open>cf-image\<close>\<close>

definition hasInlineRadius :: "styleguide option \<Rightarrow> attrs \<Rightarrow> bool" where
  "hasInlineRadius data el =
     (\<not> isCornerStyleguide data el
      \<and> truthy (of_attr (attr_or_attr (attr el ''rounded'') (attr el ''corner''))))"

definition hasInlineShadow :: "styleguide option \<Rightarrow> attrs \<Rightarrow> bool" where
  "hasInlineShadow data el =
     (truthy (of_attr (attr el ''shadow'')) \<and> \<not> isShadowStyleguide data el)"

definition needsInnerContainer :: "styleguide option \<Rightarrow> attrs \<Rightarrow> bool" where
  "needsInnerContainer data el = (hasInlineRadius data el \<and> hasInlineShadow data el)"

definition resolvedRadius :: "attrs \<Rightarrow> jsval" where
  "resolvedRadius el =
     (let rc = attr_or_attr (attr el ''rounded'') (attr el ''corner'')
      in if truthy (of_attr rc) then js_or (resolve rc RADIUS) (of_attr rc) else Null)"

definition resolvedShadow :: "attrs \<Rightarrow> jsval" where
  "resolvedShadow el =
     (let shadow = attr el ''shadow''
      in if truthy (of_attr shadow) then js_or (resolve shadow SHADOWS) (of_attr shadow) else Null)"

definition CFImage_innerContainerStyles :: "styleguide option \<Rightarrow> attrs \<Rightarrow> style_obj option" where
  "CFImage_innerContainerStyles data el =
     (if needsInnerContainer data el
      then Some [(''display'', Str ''inline-block''),
                 (''border-radius'', resolvedRadius el),
                 (''overflow'', Str ''hidden''),
                 (''box-shadow'', resolvedShadow el),
                 (''max-width'', Str ''100%'')]
      else None)"

definition CFImage_imgStyles :: "styleguide option \<Rightarrow> attrs \<Rightarrow> style_obj" where
  "CFImage_imgStyles data el =
     (let border = attr el ''border'';
          imgStyles =
            [(''display'', Str (if needsInnerContainer data el then ''block'' else ''inline-block'')),
             (''vertical-align'', Str ''top''),
             (''max-width'', Str ''100%''),
             (''width'', Str (attr_or el ''width'' ''100%''))];
          imgStyles = set_if ''height'' (attr el ''height'') imgStyles;
          imgStyles = set_when (\<not> needsInnerContainer data el \<and> \<not> isCornerStyleguide data el
                                \<and> truthy (of_attr (attr_or_attr (attr el ''rounded'') (attr el ''corner''))))
                        ''border-radius'' (resolvedRadius el) imgStyles;
          imgStyles = set_when (\<not> needsInnerContainer data el \<and> truthy (of_attr (attr el ''shadow''))
                                \<and> \<not> isShadowStyleguide data el)
                        ''box-shadow'' (resolvedShadow el) imgStyles;
          imgStyles = set_when (truthy (of_attr border) \<and> \<not> isBorderStyleguide data el)
                        ''border-width'' (js_or (resolve border BORDER_WIDTHS) (of_attr border)) imgStyles;
          imgStyles = set_when (truthy (of_attr border) \<and> \<not> isBorderStyleguide data el)
                        ''border-style'' (Str (attr_or el ''border-style'' ''solid'')) imgStyles;
          imgStyles = set_if ''border-color'' (attr el ''border-color'') imgStyles;
          imgStyles = set_if ''object-fit'' (attr el ''object-fit'') imgStyles
      in imgStyles)"

definition CFImage_wrapperStyles :: "attrs \<Rightarrow> style_obj" where
  "CFImage_wrapperStyles el =
     [(''text-align'', Str (attr_or el ''align'' ''center'')),
      (''padding-top'', Str (attr_or el ''pt'' ''0'')),
      (''padding-bottom'', Str (attr_or el ''pb'' ''0'')),
      (''margin-top'', Str (attr_or el ''mt'' ''0'')),
      (''box-sizing'', Str ''border-box'')]"

definition CFImage_dataAttrs :: "styleguide option \<Rightarrow> attrs \<Rightarrow> attrs" where
  "CFImage_dataAttrs data el =
     (let width = attr_or el ''width'' ''100%'';
          align = attr_or el ''align'' ''center'';
          borderStyle = attr_or el ''border-style'' ''solid''
      in [(''data-type'', ''Image/V2''), (''data-src'', attr_or el ''src'' [])]
         @ opt_attr ''data-alt'' (Some (attr_or el ''alt'' []))
         @ when_attr (width \<noteq> ''100%'') ''data-width'' width
         @ opt_attr ''data-height'' (attr el ''height'')
         @ when_attr (align \<noteq> ''center'') ''data-align'' align
         @ opt_attr ''data-rounded'' (attr el ''rounded'')
         @ opt_attr ''data-corner'' (attr el ''corner'')
         @ opt_attr ''data-shadow'' (attr el ''shadow'')
         @ opt_attr ''data-border'' (attr el ''border'')
         @ when_attr (borderStyle \<noteq> ''solid'') ''data-border-style'' borderStyle
         @ opt_attr ''data-border-color'' (attr el ''border-color'')
         @ opt_attr ''data-object-fit'' (attr el ''object-fit'')
         @ opt_attr ''data-brand-asset'' (attr el ''brand-asset'')
         @ styleguide_dataAttrs data el
         @ buildAnimationAttrs el)"

definition CFImage_render :: "styleguide option \<Rightarrow> brand_assets option \<Rightarrow> attrs \<Rightarrow> node list \<Rightarrow> node list" where
  "CFImage_render data assets el content =
     (let src = str_of (brand_url assets (attr el ''brand-asset'') (Some (attr_or el ''src'' [])));
          img = El ''img'' [(''src'', src), (''alt'', attr_or el ''alt'' []),
                            (''style'', buildStyle (CFImage_imgStyles data el))] [];
          innerHtml =
            (case CFImage_innerContainerStyles data el of
               Some innerContainerStyles \<Rightarrow>
                 El ''span'' [(''style'', buildStyle innerContainerStyles)] [img]
             | None \<Rightarrow> img)
      in [El ''div''
            (CFImage_dataAttrs data el @ [(''style'', buildStyle (CFImage_wrapperStyles el))])
            [innerHtml]])"

subsection \<open>An element to compute with\<close>

text \<open>Attributes that name the entry \<open>style1\<close> of each catalog of the example styleguide.\<close>

definition catalog_el :: attrs where
  "catalog_el =
     [(''shadow'', ''style1''), (''border'', ''style1''), (''corner'', ''style1''),
      (''rounded'', ''lg'')]"

section \<open>Queries and updates on the document\<close>

text \<open>
  An element of the document is named by its path: the index of a top-level node, then
  the index among the children, and so on. The renderers replace elements, the
  post-processing below only sets attributes, so paths stay valid while it runs.
\<close>

type_synonym path = "nat list"

fun node_at :: "node list \<Rightarrow> path \<Rightarrow> node option" where
  "node_at ns [] = None"
| "node_at ns (i # p) =
     (if i < length ns
      then (if p = [] then Some (ns ! i)
            else (case ns ! i of El t a cs \<Rightarrow> node_at cs p | Text s \<Rightarrow> None))
      else None)"

definition attrs_at :: "node list \<Rightarrow> path \<Rightarrow> attrs option" where
  "attrs_at doc p = (case node_at doc p of Some (El t a cs) \<Rightarrow> Some a | _ \<Rightarrow> None)"

definition tag_at :: "node list \<Rightarrow> path \<Rightarrow> string option" where
  "tag_at doc p = (case node_at doc p of Some (El t a cs) \<Rightarrow> Some t | _ \<Rightarrow> None)"

text \<open>The paths of all elements, in document order.\<close>

fun paths_node :: "node \<Rightarrow> path list" and paths_forest :: "nat \<Rightarrow> node list \<Rightarrow> path list" where
  "paths_node (Text s) = []"
| "paths_node (El t a cs) = [] # paths_forest 0 cs"
| "paths_forest i [] = []"
| "paths_forest i (n # ns) = map ((#) i) (paths_node n) @ paths_forest (Suc i) ns"

definition all_paths :: "node list \<Rightarrow> path list" where
  "all_paths doc = paths_forest 0 doc"

text \<open>The selectors the library uses.\<close>

datatype selector =
    Tag string
  | HasAttr string
  | AttrEq string string
  | AttrEqNotHas string string string

fun matches :: "selector \<Rightarrow> string \<Rightarrow> attrs \<Rightarrow> bool" where
  "matches (Tag t) tag a = (tag = t)"
| "matches (HasAttr n) tag a = hasAttribute a n"
| "matches (AttrEq n v) tag a = (attr a n = Some v)"
| "matches (AttrEqNotHas n v m) tag a = (attr a n = Some v \<and> \<not> hasAttribute a m)"

definition matches_at :: "node list \<Rightarrow> selector \<Rightarrow> path \<Rightarrow> bool" where
  "matches_at doc sel p =
     (case node_at doc p of Some (El t a cs) \<Rightarrow> matches sel t a | _ \<Rightarrow> False)"

text \<open>\<open>document.querySelectorAll(sel)\<close> and \<open>container.querySelectorAll(sel)\<close>\<close>

definition querySelectorAll :: "node list \<Rightarrow> selector \<Rightarrow> path list" where
  "querySelectorAll doc sel = filter (matches_at doc sel) (all_paths doc)"

definition querySelectorAll_in :: "node list \<Rightarrow> path \<Rightarrow> selector \<Rightarrow> path list" where
  "querySelectorAll_in doc container sel =
     filter (\<lambda>p. strict_prefix container p) (querySelectorAll doc sel)"

text \<open>\<open>el.closest(sel)\<close>: the element itself or its nearest ancestor that matches.\<close>

definition closest :: "node list \<Rightarrow> path \<Rightarrow> selector \<Rightarrow> path option" where
  "closest doc el sel = find (\<lambda>q. q \<noteq> [] \<and> matches_at doc sel q) (rev (prefixes el))"

definition hasAttribute_at :: "node list \<Rightarrow> path \<Rightarrow> string \<Rightarrow> bool" where
  "hasAttribute_at doc el name =
     (case attrs_at doc el of Some a \<Rightarrow> hasAttribute a name | None \<Rightarrow> False)"

definition getAttribute_at :: "node list \<Rightarrow> path \<Rightarrow> string \<Rightarrow> string option" where
  "getAttribute_at doc el name =
     (case attrs_at doc el of Some a \<Rightarrow> attr a name | None \<Rightarrow> None)"

fun update_at :: "(attrs \<Rightarrow> attrs) \<Rightarrow> path \<Rightarrow> node list \<Rightarrow> node list" where
  "update_at f [] ns = ns"
| "update_at f (i # p) ns =
     (if i < length ns
      then (case ns ! i of
              El t a cs \<Rightarrow>
                ns[i := (if p = [] then El t (f a) cs else El t a (update_at f p cs))]
            | Text s \<Rightarrow> ns)
      else ns)"

text \<open>\<open>el.setAttribute(name, value)\<close>\<close>

definition setAttribute :: "path \<Rightarrow> string \<Rightarrow> string \<Rightarrow> node list \<Rightarrow> node list" where
  "setAttribute el name v doc = update_at (AList.update name v) el doc"

text \<open>\<open>xs.forEach(f)\<close> on a state that \<open>f\<close> changes.\<close>

definition forEach :: "'a list \<Rightarrow> ('a \<Rightarrow> 's \<Rightarrow> 's) \<Rightarrow> 's \<Rightarrow> 's" where
  "forEach xs f s = fold f xs s"

section \<open>Font and paint post-processing\<close>

text \<open>\<open>applyFontDataAttributes\<close>, first part: the styleguide fonts.\<close>

definition apply_font :: "string \<Rightarrow> string option \<Rightarrow> node list \<Rightarrow> node list" where
  "apply_font dataType font doc =
     (if truthy (of_attr font)
      then forEach (querySelectorAll doc (AttrEqNotHas ''data-type'' dataType ''data-font''))
             (\<lambda>el d. setAttribute el ''data-font'' (str_of font) d) doc
      else doc)"

definition apply_fonts :: "typography option \<Rightarrow> node list \<Rightarrow> node list" where
  "apply_fonts typo doc =
     (case typo of
        None \<Rightarrow> doc
      | Some t \<Rightarrow>
          apply_font ''Paragraph/V1'' (contentFont t)
            (apply_font ''SubHeadline/V1'' (subheadlineFont t)
               (apply_font ''Headline/V1'' (headlineFont t) doc)))"

text \<open>
  \<open>isDirectPaintDescendant(el, paintContainer)\<close>: the closest element with a
  \<open>data-paint-colors\<close> attribute, the element itself included, is the container.
\<close>

definition isDirectPaintDescendant :: "node list \<Rightarrow> path \<Rightarrow> path \<Rightarrow> bool" where
  "isDirectPaintDescendant doc el paintContainer =
     (closest doc el (HasAttr ''data-paint-colors'') = Some paintContainer)"

definition set_link_color :: "string option \<Rightarrow> path \<Rightarrow> node list \<Rightarrow> node list" where
  "set_link_color linkColor el doc =
     (if truthy (of_attr linkColor) then setAttribute el ''data-link-color'' (str_of linkColor) doc
      else doc)"

text \<open>The loop over the headlines, the subheadlines and the paragraphs of one container.\<close>

definition paint_text :: "string \<Rightarrow> string \<Rightarrow> string option \<Rightarrow> path \<Rightarrow> node list \<Rightarrow> node list" where
  "paint_text dataType color linkColor container doc =
     forEach (querySelectorAll_in doc container (AttrEq ''data-type'' dataType))
       (\<lambda>el d.
          if isDirectPaintDescendant d el container
          then set_link_color linkColor el
                 (if \<not> hasAttribute_at d el ''data-color-explicit''
                  then setAttribute el ''data-color'' color d else d)
          else d) doc"

definition paint_icon :: "string \<Rightarrow> path \<Rightarrow> node list \<Rightarrow> node list" where
  "paint_icon iconColor container doc =
     forEach (querySelectorAll_in doc container (AttrEq ''data-type'' ''Icon/V1''))
       (\<lambda>el d.
          if isDirectPaintDescendant d el container
          then (if \<not> hasAttribute_at d el ''data-color-explicit''
                then setAttribute el ''data-color'' iconColor d else d)
          else d) doc"

definition paint_list :: "string \<Rightarrow> string \<Rightarrow> string option \<Rightarrow> path \<Rightarrow> node list \<Rightarrow> node list" where
  "paint_list contentColor iconColor linkColor container doc =
     forEach (querySelectorAll_in doc container (AttrEq ''data-type'' ''BulletList/V1''))
       (\<lambda>el d.
          if isDirectPaintDescendant d el container
          then set_link_color linkColor el
                 ((\<lambda>d. if \<not> hasAttribute_at d el ''data-icon-color-explicit''
                        then setAttribute el ''data-icon-color'' iconColor d else d)
                    (if \<not> hasAttribute_at d el ''data-text-color-explicit''
                     then setAttribute el ''data-text-color'' contentColor d else d))
          else d) doc"

definition theme_link_color :: "styleguide option \<Rightarrow> paint_theme \<Rightarrow> string option" where
  "theme_link_color data theme =
     (if truthy (of_attr (linkColorId theme)) then Some (getColorHex data (linkColorId theme))
      else None)"

definition paint_container :: "styleguide option \<Rightarrow> paint_theme \<Rightarrow> path \<Rightarrow> node list \<Rightarrow> node list" where
  "paint_container data theme container doc =
     (let headlineColor = getColorHex data (headlineColorId theme);
          subheadlineColor = getColorHex data (subheadlineColorId theme);
          contentColor = getColorHex data (contentColorId theme);
          iconColor = getColorHex data (iconColorId theme);
          linkColor = theme_link_color data theme;
          doc = paint_text ''Headline/V1'' headlineColor linkColor container doc;
          doc = paint_text ''SubHeadline/V1'' subheadlineColor linkColor container doc;
          doc = paint_text ''Paragraph/V1'' contentColor linkColor container doc;
          doc = paint_icon iconColor container doc;
          doc = paint_list contentColor iconColor linkColor container doc
      in doc)"

definition paint_theme_pass :: "styleguide option \<Rightarrow> paint_theme \<Rightarrow> node list \<Rightarrow> node list" where
  "paint_theme_pass data theme doc =
     forEach (querySelectorAll doc (AttrEq ''data-paint-colors'' (theme_id theme)))
       (paint_container data theme) doc"

definition apply_paint :: "styleguide option \<Rightarrow> node list \<Rightarrow> node list" where
  "apply_paint data doc =
     (case data of
        None \<Rightarrow> doc
      | Some d \<Rightarrow> forEach (paintThemes d) (paint_theme_pass data) doc)"

definition applyFontDataAttributes :: "styleguide option \<Rightarrow> node list \<Rightarrow> node list" where
  "applyFontDataAttributes data doc =
     (case data of
        None \<Rightarrow> doc
      | Some d \<Rightarrow> apply_paint data (apply_fonts (typography d) doc))"

section \<open>What the post-processing may change\<close>

text \<open>
  The attributes \<open>applyFontDataAttributes\<close> writes. Two documents have the same frame
  when they have the same elements and agree on every other attribute; a selector is
  stable when it reads none of these attributes.
\<close>

definition cascade_names :: "string list" where
  "cascade_names =
     [''data-font'', ''data-color'', ''data-link-color'', ''data-text-color'', ''data-icon-color'']"

definition same_frame :: "node list \<Rightarrow> node list \<Rightarrow> bool" where
  "same_frame d d' =
     (all_paths d = all_paths d' \<and> (\<forall>q. tag_at d q = tag_at d' q)
      \<and> (\<forall>q n. n \<notin> set cascade_names \<longrightarrow> getAttribute_at d q n = getAttribute_at d' q n))"

fun stable :: "selector \<Rightarrow> bool" where
  "stable (Tag t) = True"
| "stable (HasAttr n) = (n \<notin> set cascade_names)"
| "stable (AttrEq n v) = (n \<notin> set cascade_names)"
| "stable (AttrEqNotHas n v m) = (n \<notin> set cascade_names \<and> m \<notin> set cascade_names)"

text \<open>
  The attributes that carry a color a theme may paint, and the marker that protects each:
  \<open>data-color-explicit\<close>, \<open>data-text-color-explicit\<close>, \<open>data-icon-color-explicit\<close>.
\<close>

definition tracked :: "string list" where
  "tracked = [''data-color'', ''data-text-color'', ''data-icon-color'']"

definition marker :: "string \<Rightarrow> string" where
  "marker name = name @ ''-explicit''"

text \<open>
  The color a theme gives to an attribute of an element of a data type: the headline,
  subheadline, content or icon color for \<open>data-color\<close>, and for a bullet list the
  content color for \<open>data-text-color\<close> and the icon color for \<open>data-icon-color\<close>.
\<close>

definition theme_color :: "styleguide option \<Rightarrow> paint_theme \<Rightarrow> string \<Rightarrow> string \<Rightarrow> string option" where
  "theme_color data theme dataType name =
     (if name = ''data-color''
      then (if dataType = ''Headline/V1'' then Some (getColorHex data (headlineColorId theme))
            else if dataType = ''SubHeadline/V1''
            then Some (getColorHex data (subheadlineColorId theme))
            else if dataType = ''Paragraph/V1'' then Some (getColorHex data (contentColorId theme))
            else if dataType = ''Icon/V1'' then Some (getColorHex data (iconColorId theme))
            else None)
      else if dataType = ''BulletList/V1''
      then (if name = ''data-text-color'' then Some (getColorHex data (contentColorId theme))
            else if name = ''data-icon-color'' then Some (getColorHex data (iconColorId theme))
            else None)
      else None)"

text \<open>
  A rendered page with three painted sections: under the first a headline, a paragraph
  with a color of its own and a bullet list with an icon color of its own, under the
  second a headline, and under the third, whose paint is no theme, a headline.
\<close>

definition paint_doc :: "node list" where
  "paint_doc =
     [El ''section'' [(''data-type'', ''SectionContainer/V1''), (''data-paint-colors'', ''dark'')]
        [El ''div'' [(''data-type'', ''Headline/V1'')] [Text ''A''],
         El ''div'' [(''data-type'', ''Paragraph/V1''), (''data-color'', ''#ff0000''),
                     (''data-color-explicit'', ''true'')] [Text ''B''],
         El ''div'' [(''data-type'', ''BulletList/V1''), (''data-icon-color'', ''#0000ff''),
                     (''data-icon-color-explicit'', ''true'')] []],
      El ''section'' [(''data-type'', ''SectionContainer/V1''), (''data-paint-colors'', ''light'')]
        [El ''div'' [(''data-type'', ''Headline/V1'')] [Text ''C'']],
      El ''section'' [(''data-type'', ''SectionContainer/V1''), (''data-paint-colors'', ''other'')]
        [El ''div'' [(''data-type'', ''Headline/V1''), (''data-color'', ''#00ff00'')] [Text ''D'']]]"

section \<open>Initialization\<close>

text \<open>
  The state the library keeps for one page: the data of the styleguide manager, whether
  its stylesheet has been injected, the data of the brand assets manager, the document,
  and the warnings written to the console.
\<close>

record page =
  sg_data :: "styleguide option"
  styleElement :: bool
  brand_data :: "brand_assets option"
  document :: "node list"
  console :: "string list"

text \<open>
  \<open>JSON.parse\<close> is the platform's: it throws a \<open>SyntaxError\<close> or returns a value, which may
  be \<open>null\<close>. The model takes it as a parameter.
\<close>

datatype js_error = SyntaxError

type_synonym 'a json_parse = "string \<Rightarrow> js_error + 'a option"

fun text_of_node :: "node \<Rightarrow> string" and text_of_forest :: "node list \<Rightarrow> string" where
  "text_of_node (Text s) = s"
| "text_of_node (El t a cs) = text_of_forest cs"
| "text_of_forest [] = []"
| "text_of_forest (n # ns) = text_of_node n @ text_of_forest ns"

definition textContent :: "node list \<Rightarrow> path \<Rightarrow> string" where
  "textContent doc p = (case node_at doc p of Some n \<Rightarrow> text_of_node n | None \<Rightarrow> [])"

definition getElementById :: "node list \<Rightarrow> string \<Rightarrow> path option" where
  "getElementById doc i =
     (case querySelectorAll doc (AttrEq ''id'' i) of [] \<Rightarrow> None | p # ps \<Rightarrow> Some p)"

text \<open>
  \<open>StyleguideManager.injectCSS\<close>: the stylesheet generated from the styleguide is put in
  place (its text is the business of the stylesheet generator, not of the resolution
  engine), then \<open>applyFontDataAttributes\<close> runs.
\<close>

definition injectCSS :: "page \<Rightarrow> page" where
  "injectCSS pg =
     (if sg_data pg = None then pg
      else pg\<lparr> styleElement := True,
               document := applyFontDataAttributes (sg_data pg) (document pg) \<rparr>)"

text \<open>\<open>StyleguideManager.init(styleguideData = null)\<close>\<close>

definition StyleguideManager_init :: "styleguide json_parse \<Rightarrow> styleguide option \<Rightarrow> page \<Rightarrow> page" where
  "StyleguideManager_init parse styleguideData pg =
     (case styleguideData of
        Some d \<Rightarrow> injectCSS (pg\<lparr> sg_data := Some d \<rparr>)
      | None \<Rightarrow>
          (case getElementById (document pg) ''cf-styleguide-data'' of
             None \<Rightarrow> injectCSS pg
           | Some scriptEl \<Rightarrow>
               (case parse (textContent (document pg) scriptEl) of
                  Inl e \<Rightarrow>
                    pg\<lparr> console := console pg @ [''FunnelWind: Failed to parse styleguide data:''] \<rparr>
                | Inr v \<Rightarrow> injectCSS (pg\<lparr> sg_data := v \<rparr>))))"

text \<open>\<open>BrandAssetsManager.init(brandAssets = null)\<close>\<close>

definition BrandAssetsManager_init :: "brand_assets json_parse \<Rightarrow> brand_assets option \<Rightarrow> page \<Rightarrow> page" where
  "BrandAssetsManager_init parse brandAssets pg =
     (case brandAssets of
        Some d \<Rightarrow> pg\<lparr> brand_data := Some d \<rparr>
      | None \<Rightarrow>
          (case getElementById (document pg) ''cf-brand-assets'' of
             None \<Rightarrow> pg
           | Some scriptEl \<Rightarrow>
               (case parse (textContent (document pg) scriptEl) of
                  Inl e \<Rightarrow>
                    pg\<lparr> console := console pg @ [''FunnelWind: Failed to parse brand assets data:''] \<rparr>
                | Inr v \<Rightarrow> pg\<lparr> brand_data := v \<rparr>)))"

subsection \<open>The rendering pass\<close>

definition tagOrder :: "string list" where
  "tagOrder =
     [''cf-icon'', ''cf-divider'', ''cf-image'', ''cf-video'', ''cf-headline'',
      ''cf-subheadline'', ''cf-paragraph'', ''cf-button'', ''cf-input'', ''cf-textarea'',
      ''cf-select'', ''cf-checkbox'', ''cf-bullet-list'', ''cf-progress-bar'',
      ''cf-video-popup'', ''cf-countdown'',
      ''cf-checkout-placeholder'', ''cf-order-summary-placeholder'',
      ''cf-confirmation-placeholder'',
      ''cf-flex'', ''cf-col-inner'', ''cf-col'', ''cf-row'', ''cf-section'', ''cf-popup'',
      ''cf-page'']"



text \<open>
  A renderer is the \<open>render\<close> method of a class: from the attributes and the children of
  its element to the markup that replaces the element. The registry maps a tag to the
  class registered for it; a tag without a class (\<open>cf-col-inner\<close>, whose registration is
  commented out) has no \<open>render\<close> and is skipped by the pass.
\<close>

type_synonym renderer = "attrs \<Rightarrow> node list \<Rightarrow> node list"

type_synonym registry = "string \<Rightarrow> renderer option"

text \<open>
  One \<open>document.querySelectorAll(tag).forEach(render)\<close>. The node list is taken once, in
  document order, and each of its elements is replaced where it stands. An element of
  the list that lies inside an earlier one of the same tag has left the document with
  it before its turn comes (the replacement markup holds a fresh copy of it): it is
  rendered where it is, detached, and the document keeps the copy as it was captured.
  So the document changes as if every outermost element of the tag were replaced, from
  first to last, by what its renderer makes of its attributes and children. The flag
  \<open>_rendered\<close> of the test \<open>el.render && !el._rendered\<close> is not part of the state: every
  \<open>render\<close> method replaces its element, so an element that the query finds in the
  document has not been rendered.
\<close>

fun render_all :: "renderer \<Rightarrow> string \<Rightarrow> node list \<Rightarrow> node list" where
  "render_all r tag [] = []"
| "render_all r tag (Text s # ns) = Text s # render_all r tag ns"
| "render_all r tag (El t a cs # ns) =
     (if t = tag then r a cs @ render_all r tag ns
      else El t a (render_all r tag cs) # render_all r tag ns)"

text \<open>
  A render call as the trace records it: the tag, the place of the element in the
  document at the time the node list was taken, and the content the renderer captured.
\<close>

record event =
  ev_tag :: string
  ev_path :: path
  ev_content :: "node list"

definition children_at :: "node list \<Rightarrow> path \<Rightarrow> node list" where
  "children_at doc p = (case node_at doc p of Some (El t a cs) \<Rightarrow> cs | _ \<Rightarrow> [])"

definition render_tag :: "registry \<Rightarrow> string \<Rightarrow> node list \<times> event list \<Rightarrow> node list \<times> event list" where
  "render_tag els tag st =
     (case els tag of
        None \<Rightarrow> st
      | Some r \<Rightarrow>
          (render_all r tag (fst st),
           snd st @ map (\<lambda>p. \<lparr> ev_tag = tag, ev_path = p, ev_content = children_at (fst st) p \<rparr>)
                      (querySelectorAll (fst st) (Tag tag))))"

definition mark_pages_rendered :: "node list \<Rightarrow> node list" where
  "mark_pages_rendered doc =
     forEach (querySelectorAll doc (Tag ''cf-page''))
       (\<lambda>p d. setAttribute p ''data-rendered'' ''true'' d) doc"

text \<open>\<open>initFunnelWind()\<close>: the document after the pass, and the trace of render calls.\<close>

definition initFunnelWind :: "registry \<Rightarrow> node list \<Rightarrow> node list \<times> event list" where
  "initFunnelWind els doc =
     (let st = forEach tagOrder (render_tag els) (doc, [])
      in (mark_pages_rendered (fst st), snd st))"

text \<open>The classes modelled in this development, under the tags they are registered for.\<close>

definition modelled_elements :: "styleguide option \<Rightarrow> brand_assets option \<Rightarrow> registry" where
  "modelled_elements data assets =
     map_of
       [(''cf-section'', CFSection_render data assets),
        (''cf-flex'', CFFlex_render data),
        (''cf-popup'', CFPopup_render),
        (''cf-headline'', CFHeadline_render data),
        (''cf-subheadline'', CFSubheadline_render data),
        (''cf-paragraph'', CFParagraph_render data),
        (''cf-image'', CFImage_render data assets)]"

text \<open>
  The handler that runs when the document is ready: \<open>loadGoogleFonts()\<close> (it adds a
  stylesheet link to the head and is left out), \<open>styleguideManager.init()\<close>,
  \<open>brandAssetsManager.init()\<close>, \<open>initFunnelWind()\<close>.
\<close>

definition auto_init ::
  "styleguide json_parse \<Rightarrow> brand_assets json_parse
   \<Rightarrow> (styleguide option \<Rightarrow> brand_assets option \<Rightarrow> registry) \<Rightarrow> page \<Rightarrow> page \<times> event list" where
  "auto_init parse_sg parse_ba els pg =
     (let pg = StyleguideManager_init parse_sg None pg;
          pg = BrandAssetsManager_init parse_ba None pg;
          st = initFunnelWind (els (sg_data pg) (brand_data pg)) (document pg)
      in (pg\<lparr> document := fst st \<rparr>, snd st))"

subsection \<open>Pages to compute with\<close>

text \<open>A page whose styleguide script is not JSON.\<close>

definition broken_page :: page where
  "broken_page =
     \<lparr> sg_data = None, styleElement = False, brand_data = None,
       document = [El ''script'' [(''id'', ''cf-styleguide-data'')] [Text ''{colors:'']],
       console = [] \<rparr>"

text \<open>
  A page with a styleguide script and a painted section that holds a headline; a
  \<open>JSON.parse\<close> that reads the example styleguide from the script, and one that fails.
\<close>

definition cascade_page :: page where
  "cascade_page =
     \<lparr> sg_data = None, styleElement = False, brand_data = None,
       document =
         [El ''script'' [(''id'', ''cf-styleguide-data'')] [Text ''{}''],
          El ''cf-section'' [(''paint'', ''dark'')] [El ''cf-headline'' [] [Text ''Hi'']]],
       console = [] \<rparr>"

definition given_styleguide :: "styleguide json_parse" where
  "given_styleguide s = Inr (Some example_styleguide)"

definition no_json :: "brand_assets json_parse" where
  "no_json s = Inl SyntaxError"

section \<open>The trace of the rendering pass, and what is left to resolve\<close>

text \<open>Document order on paths: an element comes before its descendants and before
  everything that follows it.\<close>

fun before :: "path \<Rightarrow> path \<Rightarrow> bool" where
  "before [] q = (q \<noteq> [])"
| "before (i # p) [] = False"
| "before (i # p) (j # q) = (i < j \<or> (i = j \<and> before p q))"










section \<open>Preset resolution\<close>

lemma resolve_null: "resolve None T = Null"
  by (simp add: resolve_def)

lemma resolve_empty: "resolve (Some []) T = Null"
  by (simp add: resolve_def)

lemma resolve_own_key:
  assumes "map_of T k = Some v" and "v \<noteq> []" and "k \<noteq> []"
  shows "resolve (Some k) T = Str v"
  using assms by (simp add: resolve_def js_get_def js_or_def)

lemma resolve_raw_key:
  assumes "map_of T k = None" and "k \<notin> set object_prototype_names" and "k \<noteq> []"
  shows "resolve (Some k) T = Str k"
  using assms by (simp add: resolve_def js_get_def js_or_def)

lemma resolve_inherited:
  assumes "map_of T k = None" and "k \<in> set object_prototype_names"
  shows "resolve (Some k) T = Native k"
proof -
  from assms(2) have "k \<noteq> []" by (auto simp: object_prototype_names_def)
  with assms show ?thesis by (simp add: resolve_def js_get_def js_or_def)
qed

text \<open>
  C8. \<open>resolve(k, T)\<close> is to be \<open>T[k]\<close> for a key of \<open>T\<close> and \<open>k\<close> itself otherwise. The
  string \<open>constructor\<close> is not a key of the shadow presets, yet \<open>SHADOWS["constructor"]\<close>
  finds the member every object literal inherits, which is truthy, and \<open>resolve\<close>
  returns that member instead of the string it was given.
\<close>

theorem resolve_constructor_not_raw:
  "map_of SHADOWS ''constructor'' = None \<and>
   resolve (Some ''constructor'') SHADOWS = Native ''constructor'' \<and>
   resolve (Some ''constructor'') SHADOWS \<noteq> Str ''constructor''"
  by (simp add: resolve_def js_get_def js_or_def SHADOWS_def object_prototype_names_def)

section \<open>Inline style strings\<close>

lemma style_entries_set:
  "set (style_entries styleObj) =
     {(k, v). (k, v) \<in> set styleObj \<and> v \<noteq> Null \<and> v \<noteq> Undefined \<and> v \<noteq> Str []}"
  by (auto simp: style_entries_def)

lemma has_empty_decl_plain_prefix:
  "CHR '':'' \<notin> set k \<Longrightarrow> has_empty_decl (k @ s) = has_empty_decl s"
  by (induction k) auto

lemma not_blank_to_semicolon:
  "\<not> blank v \<Longrightarrow> CHR '';'' \<notin> set v \<Longrightarrow> \<not> blank_to_semicolon (v @ s)"
  by (induction v) (auto simp: blank_def)

lemma has_empty_decl_one:
  assumes "plain k" and "plain v" and "\<not> blank v"
  shows "has_empty_decl (k @ '': '' @ v @ s) = has_empty_decl s"
proof -
  have "has_empty_decl (k @ '': '' @ v @ s) = has_empty_decl ('': '' @ v @ s)"
    using assms(1) by (simp add: has_empty_decl_plain_prefix plain_def)
  also have "\<dots> = has_empty_decl (v @ s)"
    using not_blank_to_semicolon [of v s] assms(2,3) by (simp add: plain_def)
  also have "\<dots> = has_empty_decl s"
    using assms(2) by (simp add: has_empty_decl_plain_prefix plain_def)
  finally show ?thesis .
qed

lemma has_empty_decl_join:
  assumes "list_all (\<lambda>(k, v). plain k \<and> plain (to_string v) \<and> \<not> blank (to_string v)) es"
  shows "\<not> has_empty_decl (join ''; '' (map (\<lambda>(k, v). k @ '': '' @ to_string v) es))"
  using assms
proof (induction es rule: induct_list012)
  case 1
  then show ?case by simp
next
  case (2 e)
  obtain k v where e: "e = (k, v)" by (cases e)
  with 2 have "has_empty_decl (k @ '': '' @ to_string v @ []) = has_empty_decl []"
    by (intro has_empty_decl_one) auto
  with e show ?case by simp
next
  case (3 e f es)
  obtain k v where e: "e = (k, v)" by (cases e)
  let ?rest = "join ''; '' (map (\<lambda>(k, v). k @ '': '' @ to_string v) (f # es))"
  from 3 e have "has_empty_decl (k @ '': '' @ to_string v @ (''; '' @ ?rest))
      = has_empty_decl (''; '' @ ?rest)"
    by (intro has_empty_decl_one) auto
  moreover have "\<not> has_empty_decl ?rest" using 3 by simp
  ultimately show ?case using e by simp
qed

text \<open>
  C10 (as amended). Every style string that \<open>buildStyle\<close> builds holds exactly the
  properties of the style object whose value is neither \<open>null\<close>, \<open>undefined\<close> nor the
  empty string, one declaration \<open>k: v\<close> each; and when neither the names nor the values
  contain a colon or a semicolon and no kept value is blank, the string has no
  declaration with an empty value.
\<close>

theorem buildStyle_omits_empty:
  "set (style_entries styleObj) =
     {(k, v). (k, v) \<in> set styleObj \<and> v \<noteq> Null \<and> v \<noteq> Undefined \<and> v \<noteq> Str []} \<and>
   buildStyle styleObj =
     join ''; '' (map (\<lambda>(k, v). k @ '': '' @ to_string v) (style_entries styleObj)) \<and>
   (plain_style styleObj \<longrightarrow> \<not> has_empty_decl (buildStyle styleObj))"
  using has_empty_decl_join [of "style_entries styleObj"]
  by (simp add: style_entries_set buildStyle_def plain_style_def)

theorem buildStyle_omits_empty_witness:
  "plain_style [(''color'', Str ''red''), (''margin-top'', Null), (''width'', Str [])] \<and>
   buildStyle [(''color'', Str ''red''), (''margin-top'', Null), (''width'', Str [])] = ''color: red'' \<and>
   \<not> has_empty_decl (buildStyle [(''color'', Str ''red''), (''margin-top'', Null), (''width'', Str [])])"
proof -
  have p: "plain_style [(''color'', Str ''red''), (''margin-top'', Null), (''width'', Str [])]"
    by (simp add: plain_style_def style_entries_def plain_def blank_def)
  have b: "buildStyle [(''color'', Str ''red''), (''margin-top'', Null), (''width'', Str [])] = ''color: red''"
    by (simp add: buildStyle_def style_entries_def)
  from p b show ?thesis
    using buildStyle_omits_empty [of "[(''color'', Str ''red''), (''margin-top'', Null), (''width'', Str [])]"]
    by blast
qed

text \<open>
  C10 (as stated) fails: a checkbox whose \<open>check-color\<close> attribute is present and empty
  renders a check icon whose style carries the declaration \<open>color: \<close> with no value.
\<close>

theorem checkbox_empty_declaration:
  "CFCheckbox_check_style [(''check-color'', [])] =
     ''color: ; font-size: calc(20px * 0.6); display: none;'' \<and>
   has_empty_decl (CFCheckbox_check_style [(''check-color'', [])])"
  by (simp add: CFCheckbox_check_style_def attr_or_def)

section \<open>Looking up a property or an attribute\<close>

lemma map_of_set_prop: "map_of (set_prop k v s) k' = (if k' = k then Some v else map_of s k')"
  by (simp add: set_prop_def update_conv')

lemma map_of_set_when:
  "map_of (set_when c k v s) k' = (if c \<and> k' = k then Some v else map_of s k')"
  by (simp add: set_when_def map_of_set_prop)

lemma map_of_set_if:
  "map_of (set_if k v s) k' =
     (if truthy (of_attr v) \<and> k' = k then Some (of_attr v) else map_of s k')"
  by (simp add: set_if_def map_of_set_when)

lemma map_of_when_attr:
  "map_of (when_attr c n v) k = (if c \<and> k = n then Some v else None)"
  by (simp add: when_attr_def)

lemma map_of_opt_attr:
  "map_of (opt_attr n v) k = (if truthy (of_attr v) \<and> k = n then Some (str_of v) else None)"
  by (simp add: opt_attr_def when_attr_def)

lemma truthy_attr:
  "(if truthy (of_attr v) then Some (str_of v) else None) = (if truthy (of_attr v) then v else None)"
  by (cases v) simp_all

lemmas lookups =
  map_of_set_prop map_of_set_when map_of_set_if map_of_when_attr map_of_opt_attr map_add_def

section \<open>The typographic scale\<close>







section \<open>Font sizes\<close>

lemma FONT_SIZES_nonempty: "map_of FONT_SIZES sz = Some v \<Longrightarrow> v \<noteq> []"
  by (auto simp: FONT_SIZES_def split: if_splits)

lemma px_nonempty: "px x \<noteq> []"
  by (simp add: px_def)

lemma typescale_nonempty:
  assumes "getTypescale data = Some ts" and "map_of (element_scale ts ty) sz = Some v"
  shows "v \<noteq> []"
proof -
  from assms(1) obtain d t where "data = Some d" "typography d = Some t"
    by (auto simp: getTypescale_def split: option.splits)
  with assms show ?thesis
    by (auto simp: getTypescale_def element_scale_def Let_def px_nonempty split: if_splits)
qed

text \<open>
  The three tiers of a font size, for every size that is not the name of an inherited
  member: the typescale of the styleguide, then the static presets, then the raw value.
\<close>

lemma resolvedSize_three_tiers:
  assumes "sz \<notin> set object_prototype_names"
  shows "resolvedSize data ty sz =
     (case getTypescale data of
        Some ts \<Rightarrow>
          (case map_of (element_scale ts ty) sz of
             Some v \<Rightarrow> Str v
           | None \<Rightarrow> (case map_of FONT_SIZES sz of Some v \<Rightarrow> Str v | None \<Rightarrow> Str sz))
      | None \<Rightarrow> (case map_of FONT_SIZES sz of Some v \<Rightarrow> Str v | None \<Rightarrow> Str sz))"
proof -
  have static: "js_or (resolve (Some sz) FONT_SIZES) (Str sz) =
      (case map_of FONT_SIZES sz of Some v \<Rightarrow> Str v | None \<Rightarrow> Str sz)"
  proof (cases "sz = []")
    case True
    then show ?thesis by (simp add: resolve_def js_or_def FONT_SIZES_def)
  next
    case False
    with assms FONT_SIZES_nonempty [of sz] show ?thesis
      by (auto simp: resolve_def js_or_def js_get_def split: option.splits)
  qed
  show ?thesis
  proof (cases "getTypescale data")
    case None
    then show ?thesis by (simp add: resolvedSize_def resolveSize_def js_or_def static [unfolded js_or_def])
  next
    case (Some ts)
    show ?thesis
    proof (cases "map_of (element_scale ts ty) sz")
      case None
      with Some assms show ?thesis
        by (simp add: resolvedSize_def resolveSize_def js_get_def Let_def js_or_def static [unfolded js_or_def])
    next
      case (Some v)
      with typescale_nonempty [OF \<open>getTypescale data = Some ts\<close> Some] \<open>getTypescale data = Some ts\<close>
      show ?thesis
        by (simp add: resolvedSize_def resolveSize_def js_get_def Let_def js_or_def)
    qed
  qed
qed

text \<open>
  C6. The size \<open>constructor\<close> is in no typescale and is not a key of the static font
  sizes, so the third tier is due: the raw value. \<open>resolve\<close> finds the inherited member
  of the preset object instead, and the headline's \<open>font-size\<close> becomes the text of a
  function.
\<close>

theorem headline_size_constructor:
  "resolveSize None ''constructor'' ''headline'' = Null \<and>
   map_of FONT_SIZES ''constructor'' = None \<and>
   map_of (CFHeadline_textStyles None [(''size'', ''constructor'')]) ''font-size''
     = Some (Native ''constructor'') \<and>
   buildStyle (CFHeadline_textStyles None [(''size'', ''constructor'')]) =
     ''margin: 0; font-size: function Object() { [native code] }; font-weight: 700; text-align: center; line-height: 110%''"
  by code_simp

section \<open>Malformed configuration\<close>

lemma getColorHex_missing:
  assumes "cid \<notin> color_id ` set (colors d)"
  shows "getColorHex (Some d) (Some cid) = ''#000000''"
proof -
  have "find (\<lambda>c. Some (color_id c) = Some cid) (colors d) = None"
    using assms by (auto simp: find_None_iff)
  then show ?thesis by (simp add: getColorHex_def)
qed

text \<open>
  C9. When the styleguide script does not parse, \<open>init\<close> warns and returns: the data of
  the manager stays \<open>null\<close>, nothing is injected and the document is untouched, so no
  value is a styleguide reference, no size comes from a typescale and no styleguide
  data attribute is emitted. A color id that the palette does not hold gives \<open>#000000\<close>.
\<close>

theorem malformed_configuration_degrades:
  assumes "sg_data pg = None"
    and "getElementById (document pg) ''cf-styleguide-data'' = Some scriptEl"
    and "parse (textContent (document pg) scriptEl) = Inl e"
  shows "sg_data (StyleguideManager_init parse None pg) = None
     \<and> document (StyleguideManager_init parse None pg) = document pg
     \<and> styleElement (StyleguideManager_init parse None pg) = styleElement pg
     \<and> console (StyleguideManager_init parse None pg)
          = console pg @ [''FunnelWind: Failed to parse styleguide data:'']
     \<and> (\<forall>v ty. \<not> isStyleguideRef (sg_data (StyleguideManager_init parse None pg)) v ty)
     \<and> (\<forall>sz ty. resolveSize (sg_data (StyleguideManager_init parse None pg)) sz ty = Null)
     \<and> (\<forall>el. styleguide_dataAttrs (sg_data (StyleguideManager_init parse None pg)) el = [])
     \<and> (\<forall>d cid. cid \<notin> color_id ` set (colors d) \<longrightarrow> getColorHex (Some d) (Some cid) = ''#000000'')
     \<and> (\<forall>cid. getColorHex None cid = ''#000000'')"
proof -
  have i: "StyleguideManager_init parse None pg
      = pg\<lparr> console := console pg @ [''FunnelWind: Failed to parse styleguide data:''] \<rparr>"
    using assms(2,3) by (simp add: StyleguideManager_init_def)
  have n: "sg_data (StyleguideManager_init parse None pg) = None"
    using assms(1) by (simp add: i)
  show ?thesis
    unfolding n using assms(1) getColorHex_missing
    by (simp add: i isStyleguideRef_def resolveSize_def getTypescale_def styleguide_dataAttrs_def
        isShadowStyleguide_def isBorderStyleguide_def isCornerStyleguide_def when_attr_def
        getColorHex_def)
qed


theorem malformed_configuration_degrades_witness:
  "sg_data broken_page = None \<and>
   getElementById (document broken_page) ''cf-styleguide-data'' = Some [0] \<and>
   textContent (document broken_page) [0] = ''{colors:'' \<and>
   sg_data (StyleguideManager_init (\<lambda>s. Inl SyntaxError) None broken_page) = None \<and>
   document (StyleguideManager_init (\<lambda>s. Inl SyntaxError) None broken_page) = document broken_page \<and>
   \<not> isStyleguideRef (sg_data (StyleguideManager_init (\<lambda>s. Inl SyntaxError) None broken_page))
       (Some ''style1'') ''shadow'' \<and>
   ''c9'' \<notin> color_id ` set (colors example_styleguide) \<and>
   getColorHex (Some example_styleguide) (Some ''c9'') = ''#000000''"
proof -
  have a: "sg_data broken_page = None" by (simp add: broken_page_def)
  have b: "getElementById (document broken_page) ''cf-styleguide-data'' = Some [0]"
    by code_simp
  have c: "(\<lambda>s. Inl SyntaxError :: js_error + styleguide option) (textContent (document broken_page) [0]) = Inl SyntaxError"
    by simp
  have d: "textContent (document broken_page) [0] = ''{colors:''" by code_simp
  have e: "''c9'' \<notin> color_id ` set (colors example_styleguide)"
    by (simp add: example_styleguide_def)
  from malformed_configuration_degrades [OF a b c] a b d e show ?thesis by blast
qed

section \<open>Data attributes\<close>

lemma attr_of_truthy: "truthy (of_attr v) \<Longrightarrow> Some (str_of v) = v"
  by (cases v) simp_all

text \<open>
  C2 (as amended). A headline stores its size, weight, alignment and leading as they
  are written on the tag (or their defaults), whatever they resolve to, and its font,
  tracking, transform and color when they are set; an image stores its \<open>src\<close> as
  written, also when a brand asset replaces it, and its rounded, corner, shadow and
  border values as written; a flex container stores direction, justify, items, width
  and height as written, but its \<open>data-gap\<close> is the gap after the conversion to \<open>em\<close>.
\<close>

theorem data_attributes_store_input:
  "map_of (CFHeadline_dataAttrs el) ''data-size'' = Some (attr_or el ''size'' ''48px'') \<and>
   map_of (CFHeadline_dataAttrs el) ''data-weight'' = Some (attr_or el ''weight'' ''bold'') \<and>
   map_of (CFHeadline_dataAttrs el) ''data-align'' = Some (attr_or el ''align'' ''center'') \<and>
   map_of (CFHeadline_dataAttrs el) ''data-leading'' = Some (attr_or el ''leading'' ''tight'') \<and>
   map_of (CFHeadline_dataAttrs el) ''data-font''
     = (if truthy (of_attr (attr el ''font'')) then attr el ''font'' else None) \<and>
   map_of (CFHeadline_dataAttrs el) ''data-tracking''
     = (if truthy (of_attr (attr el ''tracking'')) then attr el ''tracking'' else None) \<and>
   map_of (CFHeadline_dataAttrs el) ''data-transform''
     = (if truthy (of_attr (attr el ''transform'')) then attr el ''transform'' else None) \<and>
   map_of (CFHeadline_dataAttrs el) ''data-color''
     = (if truthy (of_attr (attr el ''color'')) then attr el ''color'' else None) \<and>
   map_of (CFImage_dataAttrs data el) ''data-src'' = Some (attr_or el ''src'' []) \<and>
   map_of (CFImage_dataAttrs data el) ''data-rounded''
     = (if truthy (of_attr (attr el ''rounded'')) then attr el ''rounded'' else None) \<and>
   map_of (CFImage_dataAttrs data el) ''data-corner''
     = (if truthy (of_attr (attr el ''corner'')) then attr el ''corner'' else None) \<and>
   map_of (CFImage_dataAttrs data el) ''data-shadow''
     = (if truthy (of_attr (attr el ''shadow'')) then attr el ''shadow'' else None) \<and>
   map_of (CFImage_dataAttrs data el) ''data-border''
     = (if truthy (of_attr (attr el ''border'')) then attr el ''border'' else None) \<and>
   map_of (CFFlex_dataAttrs data el) ''data-direction'' = Some (attr_or el ''direction'' ''row'') \<and>
   map_of (CFFlex_dataAttrs data el) ''data-justify'' = Some (attr_or el ''justify'' ''start'') \<and>
   map_of (CFFlex_dataAttrs data el) ''data-items'' = Some (attr_or el ''items'' ''start'') \<and>
   map_of (CFFlex_dataAttrs data el) ''data-width''
     = (if truthy (of_attr (attr el ''width'')) then attr el ''width'' else None) \<and>
   map_of (CFFlex_dataAttrs data el) ''data-height''
     = (if truthy (of_attr (attr el ''height'')) then attr el ''height'' else None) \<and>
   map_of (CFFlex_dataAttrs data el) ''data-gap'' = Some (flex_gap (attr el ''gap''))"
proof -
  have h: "map_of (CFHeadline_dataAttrs el) ''data-size'' = Some (attr_or el ''size'' ''48px'')"
    "map_of (CFHeadline_dataAttrs el) ''data-weight'' = Some (attr_or el ''weight'' ''bold'')"
    "map_of (CFHeadline_dataAttrs el) ''data-align'' = Some (attr_or el ''align'' ''center'')"
    "map_of (CFHeadline_dataAttrs el) ''data-leading'' = Some (attr_or el ''leading'' ''tight'')"
    "map_of (CFHeadline_dataAttrs el) ''data-font''
       = (if truthy (of_attr (attr el ''font'')) then attr el ''font'' else None)"
    "map_of (CFHeadline_dataAttrs el) ''data-tracking''
       = (if truthy (of_attr (attr el ''tracking'')) then attr el ''tracking'' else None)"
    "map_of (CFHeadline_dataAttrs el) ''data-transform''
       = (if truthy (of_attr (attr el ''transform'')) then attr el ''transform'' else None)"
    by (simp_all add: CFHeadline_dataAttrs_def text_dataAttrs_def icon_dataAttrs_def
        buildAnimationAttrs_def Let_def lookups flip: truthy_attr)
  have hc: "map_of (CFHeadline_dataAttrs el) ''data-color''
       = (if truthy (of_attr (attr el ''color'')) then attr el ''color'' else None)"
    by (cases "attr el ''color''")
       (simp_all add: CFHeadline_dataAttrs_def text_dataAttrs_def icon_dataAttrs_def
        buildAnimationAttrs_def Let_def lookups hasAttribute_def attr_def)
  have i: "map_of (CFImage_dataAttrs data el) ''data-src'' = Some (attr_or el ''src'' [])"
    "map_of (CFImage_dataAttrs data el) ''data-rounded''
       = (if truthy (of_attr (attr el ''rounded'')) then attr el ''rounded'' else None)"
    "map_of (CFImage_dataAttrs data el) ''data-corner''
       = (if truthy (of_attr (attr el ''corner'')) then attr el ''corner'' else None)"
    "map_of (CFImage_dataAttrs data el) ''data-shadow''
       = (if truthy (of_attr (attr el ''shadow'')) then attr el ''shadow'' else None)"
    "map_of (CFImage_dataAttrs data el) ''data-border''
       = (if truthy (of_attr (attr el ''border'')) then attr el ''border'' else None)"
    by (simp_all add: CFImage_dataAttrs_def styleguide_dataAttrs_def
        buildAnimationAttrs_def Let_def lookups flip: truthy_attr)
  have f: "map_of (CFFlex_dataAttrs data el) ''data-direction'' = Some (attr_or el ''direction'' ''row'')"
    "map_of (CFFlex_dataAttrs data el) ''data-justify'' = Some (attr_or el ''justify'' ''start'')"
    "map_of (CFFlex_dataAttrs data el) ''data-items'' = Some (attr_or el ''items'' ''start'')"
    "map_of (CFFlex_dataAttrs data el) ''data-width''
       = (if truthy (of_attr (attr el ''width'')) then attr el ''width'' else None)"
    "map_of (CFFlex_dataAttrs data el) ''data-height''
       = (if truthy (of_attr (attr el ''height'')) then attr el ''height'' else None)"
    by (simp_all add: CFFlex_dataAttrs_def styleguide_dataAttrs_def Let_def lookups flip: truthy_attr)
  have g: "style_get (CFFlex_styles data el) ''gap'' = Str (flex_gap (attr el ''gap''))"
    by (simp add: style_get_def CFFlex_styles_def Let_def lookups)
  have fg: "map_of (CFFlex_dataAttrs data el) ''data-gap'' = Some (flex_gap (attr el ''gap''))"
    by (simp add: CFFlex_dataAttrs_def g lookups)
  from h hc i f fg show ?thesis by simp
qed

text \<open>
  C2 (as stated) fails for the gap of a flex container: \<open>gap="32px"\<close> is stored as
  \<open>data-gap="2em"\<close>, the converted value.
\<close>

theorem flex_gap_stored_converted:
  "attr [(''gap'', ''32px'')] ''gap'' = Some ''32px'' \<and>
   map_of (CFFlex_dataAttrs None [(''gap'', ''32px'')]) ''data-gap'' = Some ''2em''"
  by code_simp

section \<open>Styleguide references\<close>

lemma ref_truthy: "isStyleguideRef data v ty \<Longrightarrow> truthy (of_attr v)"
  by (auto simp: isStyleguideRef_def split: option.splits if_splits)

lemma shadow_ref:
  assumes "isStyleguideRef data (attr el ''shadow'') ''shadow''"
  shows "isShadowStyleguide data el \<and> Some (str_of (attr el ''shadow'')) = attr el ''shadow''"
  using assms ref_truthy [OF assms] by (simp add: isShadowStyleguide_def attr_of_truthy)

lemma border_ref:
  assumes "isStyleguideRef data (attr el ''border'') ''border''"
  shows "isBorderStyleguide data el \<and> Some (str_of (attr el ''border'')) = attr el ''border''"
  using assms ref_truthy [OF assms] by (simp add: isBorderStyleguide_def attr_of_truthy)

lemma corner_ref:
  assumes "isStyleguideRef data (attr el ''corner'') ''corner''"
  shows "isCornerStyleguide data el \<and> Some (str_of (attr el ''corner'')) = attr el ''corner''
    \<and> truthy (of_attr (attr el ''corner''))"
  using assms ref_truthy [OF assms] by (simp add: isCornerStyleguide_def attr_of_truthy)

lemma styleguide_dataAttrs_shadow:
  "map_of (styleguide_dataAttrs data el) ''data-style-guide-shadow''
     = (if isShadowStyleguide data el then Some (str_of (attr el ''shadow'')) else None)"
  by (simp add: styleguide_dataAttrs_def lookups)

lemma styleguide_dataAttrs_border:
  "map_of (styleguide_dataAttrs data el) ''data-style-guide-border''
     = (if isBorderStyleguide data el then Some (str_of (attr el ''border'')) else None)"
  by (simp add: styleguide_dataAttrs_def lookups)

lemma styleguide_dataAttrs_corner:
  "map_of (styleguide_dataAttrs data el) ''data-style-guide-corner''
     = (if isCornerStyleguide data el then Some (str_of (attr el ''corner'')) else None)"
  by (simp add: styleguide_dataAttrs_def lookups)

lemma video_dataAttrs_shadow: "map_of (video_dataAttrs el) ''data-style-guide-shadow'' = None"
  by (simp add: video_dataAttrs_def Let_def lookups)

lemma video_dataAttrs_border: "map_of (video_dataAttrs el) ''data-style-guide-border'' = None"
  by (simp add: video_dataAttrs_def Let_def lookups)

lemma video_dataAttrs_corner: "map_of (video_dataAttrs el) ''data-style-guide-corner'' = None"
  by (simp add: video_dataAttrs_def Let_def lookups)

lemma animation_no_styleguide:
  "map_of (buildAnimationAttrs el) ''data-style-guide-shadow'' = None"
  "map_of (buildAnimationAttrs el) ''data-style-guide-border'' = None"
  "map_of (buildAnimationAttrs el) ''data-style-guide-corner'' = None"
  by (simp_all add: buildAnimationAttrs_def)

lemma section_sg_shadow:
  "map_of (CFSection_dataAttrs data assets el) ''data-style-guide-shadow''
     = map_of (styleguide_dataAttrs data el) ''data-style-guide-shadow''"
  by (simp add: CFSection_dataAttrs_def map_of_when_attr map_of_opt_attr map_add_def
      video_dataAttrs_shadow split: option.split)

lemma section_sg_border:
  "map_of (CFSection_dataAttrs data assets el) ''data-style-guide-border''
     = map_of (styleguide_dataAttrs data el) ''data-style-guide-border''"
  by (simp add: CFSection_dataAttrs_def map_of_when_attr map_of_opt_attr map_add_def
      video_dataAttrs_border split: option.split)

lemma section_sg_corner:
  "map_of (CFSection_dataAttrs data assets el) ''data-style-guide-corner''
     = map_of (styleguide_dataAttrs data el) ''data-style-guide-corner''"
  by (simp add: CFSection_dataAttrs_def map_of_when_attr map_of_opt_attr map_add_def
      video_dataAttrs_corner split: option.split)

lemma flex_sg_shadow:
  "map_of (CFFlex_dataAttrs data el) ''data-style-guide-shadow''
     = map_of (styleguide_dataAttrs data el) ''data-style-guide-shadow''"
  by (simp add: CFFlex_dataAttrs_def map_of_when_attr map_of_opt_attr map_add_def)

lemma flex_sg_border:
  "map_of (CFFlex_dataAttrs data el) ''data-style-guide-border''
     = map_of (styleguide_dataAttrs data el) ''data-style-guide-border''"
  by (simp add: CFFlex_dataAttrs_def map_of_when_attr map_of_opt_attr map_add_def)

lemma flex_sg_corner:
  "map_of (CFFlex_dataAttrs data el) ''data-style-guide-corner''
     = map_of (styleguide_dataAttrs data el) ''data-style-guide-corner''"
  by (simp add: CFFlex_dataAttrs_def map_of_when_attr map_of_opt_attr map_add_def)

lemma image_sg_shadow:
  "map_of (CFImage_dataAttrs data el) ''data-style-guide-shadow''
     = map_of (styleguide_dataAttrs data el) ''data-style-guide-shadow''"
  by (simp add: CFImage_dataAttrs_def Let_def map_of_when_attr map_of_opt_attr map_add_def
      animation_no_styleguide split: option.split)

lemma image_sg_border:
  "map_of (CFImage_dataAttrs data el) ''data-style-guide-border''
     = map_of (styleguide_dataAttrs data el) ''data-style-guide-border''"
  by (simp add: CFImage_dataAttrs_def Let_def map_of_when_attr map_of_opt_attr map_add_def
      animation_no_styleguide split: option.split)

lemma image_sg_corner:
  "map_of (CFImage_dataAttrs data el) ''data-style-guide-corner''
     = map_of (styleguide_dataAttrs data el) ''data-style-guide-corner''"
  by (simp add: CFImage_dataAttrs_def Let_def map_of_when_attr map_of_opt_attr map_add_def
      animation_no_styleguide split: option.split)

lemma section_box_shadow_catalog:
  assumes "isShadowStyleguide data el"
  shows "map_of (CFSection_styles data assets el) ''box-shadow'' = None"
  using assms by (simp add: CFSection_styles_def Let_def map_of_set_prop map_of_set_when map_of_set_if)

lemma section_border_width_catalog:
  assumes "isBorderStyleguide data el"
  shows "map_of (CFSection_styles data assets el) ''border-width'' = None"
  using assms by (simp add: CFSection_styles_def Let_def map_of_set_prop map_of_set_when map_of_set_if)

lemma section_border_style_catalog:
  assumes "isBorderStyleguide data el"
  shows "map_of (CFSection_styles data assets el) ''border-style'' = None"
  using assms by (simp add: CFSection_styles_def Let_def map_of_set_prop map_of_set_when map_of_set_if)

lemma section_border_radius_catalog:
  assumes "isCornerStyleguide data el" and "truthy (of_attr (attr el ''corner''))"
  shows "map_of (CFSection_styles data assets el) ''border-radius'' = None"
  using assms by (simp add: CFSection_styles_def Let_def map_of_set_prop map_of_set_when map_of_set_if)

lemma flex_box_shadow_catalog:
  assumes "isShadowStyleguide data el"
  shows "map_of (CFFlex_styles data el) ''box-shadow'' = None"
  using assms by (simp add: CFFlex_styles_def Let_def map_of_set_prop map_of_set_when map_of_set_if)

lemma flex_border_width_catalog:
  assumes "isBorderStyleguide data el"
  shows "map_of (CFFlex_styles data el) ''border-width'' = None"
  using assms by (simp add: CFFlex_styles_def Let_def map_of_set_prop map_of_set_when map_of_set_if)

lemma flex_border_style_catalog:
  assumes "isBorderStyleguide data el"
  shows "map_of (CFFlex_styles data el) ''border-style'' = None"
  using assms by (simp add: CFFlex_styles_def Let_def map_of_set_prop map_of_set_when map_of_set_if)

lemma flex_border_radius_catalog:
  assumes "isCornerStyleguide data el" and "truthy (of_attr (attr el ''corner''))"
  shows "map_of (CFFlex_styles data el) ''border-radius'' = None"
  using assms by (simp add: CFFlex_styles_def Let_def map_of_set_prop map_of_set_when map_of_set_if)

lemma image_box_shadow_catalog:
  assumes "isShadowStyleguide data el"
  shows "map_of (CFImage_imgStyles data el) ''box-shadow'' = None"
  using assms by (simp add: CFImage_imgStyles_def Let_def needsInnerContainer_def hasInlineShadow_def map_of_set_prop map_of_set_when map_of_set_if)

lemma image_border_width_catalog:
  assumes "isBorderStyleguide data el"
  shows "map_of (CFImage_imgStyles data el) ''border-width'' = None"
  using assms by (simp add: CFImage_imgStyles_def Let_def needsInnerContainer_def hasInlineShadow_def map_of_set_prop map_of_set_when map_of_set_if)

lemma image_border_style_catalog:
  assumes "isBorderStyleguide data el"
  shows "map_of (CFImage_imgStyles data el) ''border-style'' = None"
  using assms by (simp add: CFImage_imgStyles_def Let_def needsInnerContainer_def hasInlineShadow_def map_of_set_prop map_of_set_when map_of_set_if)

lemma image_border_radius_catalog:
  assumes "isCornerStyleguide data el" and "truthy (of_attr (attr el ''corner''))"
  shows "map_of (CFImage_imgStyles data el) ''border-radius'' = None"
  using assms by (simp add: CFImage_imgStyles_def Let_def needsInnerContainer_def hasInlineRadius_def map_of_set_prop map_of_set_when map_of_set_if)

lemma image_no_inner_shadow:
  assumes "isShadowStyleguide data el"
  shows "CFImage_innerContainerStyles data el = None"
  using assms
  by (simp add: CFImage_innerContainerStyles_def needsInnerContainer_def hasInlineShadow_def)

lemma image_no_inner_corner:
  assumes "isCornerStyleguide data el"
  shows "CFImage_innerContainerStyles data el = None"
  using assms
  by (simp add: CFImage_innerContainerStyles_def needsInnerContainer_def hasInlineRadius_def)

text \<open>
  C3 (as amended). On a section, a flex container and an image, a shadow, border or
  corner attribute that names an entry of its styleguide catalog puts no declaration of
  that property into the inline style (no \<open>box-shadow\<close>; no \<open>border-width\<close> and
  \<open>border-style\<close>; no \<open>border-radius\<close>, and no clipping layer on the image) and is
  persisted as \<open>data-style-guide-shadow\<close>, \<open>-border\<close> or \<open>-corner\<close>; this holds as well
  when the value is also the key of a preset.
\<close>

theorem catalog_reference_excludes_inline:
  "(isStyleguideRef data (attr el ''shadow'') ''shadow'' \<longrightarrow>
      map_of (CFSection_styles data assets el) ''box-shadow'' = None
    \<and> map_of (CFSection_dataAttrs data assets el) ''data-style-guide-shadow'' = attr el ''shadow''
    \<and> map_of (CFFlex_styles data el) ''box-shadow'' = None
    \<and> map_of (CFFlex_dataAttrs data el) ''data-style-guide-shadow'' = attr el ''shadow''
    \<and> map_of (CFImage_imgStyles data el) ''box-shadow'' = None
    \<and> CFImage_innerContainerStyles data el = None
    \<and> map_of (CFImage_dataAttrs data el) ''data-style-guide-shadow'' = attr el ''shadow'')
   \<and> (isStyleguideRef data (attr el ''border'') ''border'' \<longrightarrow>
      map_of (CFSection_styles data assets el) ''border-width'' = None
    \<and> map_of (CFSection_styles data assets el) ''border-style'' = None
    \<and> map_of (CFSection_dataAttrs data assets el) ''data-style-guide-border'' = attr el ''border''
    \<and> map_of (CFFlex_styles data el) ''border-width'' = None
    \<and> map_of (CFFlex_styles data el) ''border-style'' = None
    \<and> map_of (CFFlex_dataAttrs data el) ''data-style-guide-border'' = attr el ''border''
    \<and> map_of (CFImage_imgStyles data el) ''border-width'' = None
    \<and> map_of (CFImage_imgStyles data el) ''border-style'' = None
    \<and> map_of (CFImage_dataAttrs data el) ''data-style-guide-border'' = attr el ''border'')
   \<and> (isStyleguideRef data (attr el ''corner'') ''corner'' \<longrightarrow>
      map_of (CFSection_styles data assets el) ''border-radius'' = None
    \<and> map_of (CFSection_dataAttrs data assets el) ''data-style-guide-corner'' = attr el ''corner''
    \<and> map_of (CFFlex_styles data el) ''border-radius'' = None
    \<and> map_of (CFFlex_dataAttrs data el) ''data-style-guide-corner'' = attr el ''corner''
    \<and> map_of (CFImage_imgStyles data el) ''border-radius'' = None
    \<and> CFImage_innerContainerStyles data el = None
    \<and> map_of (CFImage_dataAttrs data el) ''data-style-guide-corner'' = attr el ''corner'')"
proof (intro conjI impI)
  assume a: "isStyleguideRef data (attr el ''shadow'') ''shadow''"
  note r = shadow_ref [OF a]
  from r show "map_of (CFSection_styles data assets el) ''box-shadow'' = None"
    by (simp add: section_box_shadow_catalog)
  from r show "map_of (CFFlex_styles data el) ''box-shadow'' = None"
    by (simp add: flex_box_shadow_catalog)
  from r show "map_of (CFImage_imgStyles data el) ''box-shadow'' = None"
    by (simp add: image_box_shadow_catalog)
  from r show "map_of (CFSection_dataAttrs data assets el) ''data-style-guide-shadow'' = attr el ''shadow''"
    by (simp add: section_sg_shadow styleguide_dataAttrs_shadow)
  from r show "map_of (CFFlex_dataAttrs data el) ''data-style-guide-shadow'' = attr el ''shadow''"
    by (simp add: flex_sg_shadow styleguide_dataAttrs_shadow)
  from r show "map_of (CFImage_dataAttrs data el) ''data-style-guide-shadow'' = attr el ''shadow''"
    by (simp add: image_sg_shadow styleguide_dataAttrs_shadow)
  from r show "CFImage_innerContainerStyles data el = None"
    by (simp add: image_no_inner_shadow)
next
  assume a: "isStyleguideRef data (attr el ''border'') ''border''"
  note r = border_ref [OF a]
  from r show "map_of (CFSection_styles data assets el) ''border-width'' = None"
    by (simp add: section_border_width_catalog)
  from r show "map_of (CFSection_styles data assets el) ''border-style'' = None"
    by (simp add: section_border_style_catalog)
  from r show "map_of (CFFlex_styles data el) ''border-width'' = None"
    by (simp add: flex_border_width_catalog)
  from r show "map_of (CFFlex_styles data el) ''border-style'' = None"
    by (simp add: flex_border_style_catalog)
  from r show "map_of (CFImage_imgStyles data el) ''border-width'' = None"
    by (simp add: image_border_width_catalog)
  from r show "map_of (CFImage_imgStyles data el) ''border-style'' = None"
    by (simp add: image_border_style_catalog)
  from r show "map_of (CFSection_dataAttrs data assets el) ''data-style-guide-border'' = attr el ''border''"
    by (simp add: section_sg_border styleguide_dataAttrs_border)
  from r show "map_of (CFFlex_dataAttrs data el) ''data-style-guide-border'' = attr el ''border''"
    by (simp add: flex_sg_border styleguide_dataAttrs_border)
  from r show "map_of (CFImage_dataAttrs data el) ''data-style-guide-border'' = attr el ''border''"
    by (simp add: image_sg_border styleguide_dataAttrs_border)
next
  assume a: "isStyleguideRef data (attr el ''corner'') ''corner''"
  note r = corner_ref [OF a]
  from r show "map_of (CFSection_styles data assets el) ''border-radius'' = None"
    by (simp add: section_border_radius_catalog)
  from r show "map_of (CFFlex_styles data el) ''border-radius'' = None"
    by (simp add: flex_border_radius_catalog)
  from r show "map_of (CFImage_imgStyles data el) ''border-radius'' = None"
    by (simp add: image_border_radius_catalog)
  from r show "map_of (CFSection_dataAttrs data assets el) ''data-style-guide-corner'' = attr el ''corner''"
    by (simp add: section_sg_corner styleguide_dataAttrs_corner)
  from r show "map_of (CFFlex_dataAttrs data el) ''data-style-guide-corner'' = attr el ''corner''"
    by (simp add: flex_sg_corner styleguide_dataAttrs_corner)
  from r show "map_of (CFImage_dataAttrs data el) ''data-style-guide-corner'' = attr el ''corner''"
    by (simp add: image_sg_corner styleguide_dataAttrs_corner)
  from r show "CFImage_innerContainerStyles data el = None"
    by (simp add: image_no_inner_corner)
qed


theorem catalog_reference_excludes_inline_witness:
  "isStyleguideRef (Some example_styleguide) (attr catalog_el ''shadow'') ''shadow'' \<and>
   isStyleguideRef (Some example_styleguide) (attr catalog_el ''border'') ''border'' \<and>
   isStyleguideRef (Some example_styleguide) (attr catalog_el ''corner'') ''corner'' \<and>
   map_of (CFSection_styles (Some example_styleguide) None catalog_el) ''box-shadow'' = None \<and>
   map_of (CFSection_styles (Some example_styleguide) None catalog_el) ''border-width'' = None \<and>
   map_of (CFSection_styles (Some example_styleguide) None catalog_el) ''border-radius'' = None \<and>
   map_of (CFSection_dataAttrs (Some example_styleguide) None catalog_el) ''data-style-guide-shadow''
     = Some ''style1'' \<and>
   map_of (CFImage_dataAttrs (Some example_styleguide) catalog_el) ''data-style-guide-corner''
     = Some ''style1''"
proof -
  have r: "isStyleguideRef (Some example_styleguide) (attr catalog_el ''shadow'') ''shadow''"
    "isStyleguideRef (Some example_styleguide) (attr catalog_el ''border'') ''border''"
    "isStyleguideRef (Some example_styleguide) (attr catalog_el ''corner'') ''corner''"
    by (simp_all add: isStyleguideRef_def example_styleguide_def catalog_el_def attr_def)
  have a: "attr catalog_el ''shadow'' = Some ''style1''" "attr catalog_el ''corner'' = Some ''style1''"
    by (simp_all add: catalog_el_def attr_def)
  from r a catalog_reference_excludes_inline [of "Some example_styleguide" catalog_el None]
  show ?thesis by simp
qed

text \<open>
  C3 (as stated) fails for a popup: its renderer does not consult the catalog, so a
  shadow that names a catalog entry is resolved inline and no reference is persisted.
\<close>

theorem popup_catalog_shadow_inline:
  "isStyleguideRef (Some example_styleguide) (attr [(''shadow'', ''style1'')] ''shadow'') ''shadow'' \<and>
   map_of (CFPopup_modalStyles [(''shadow'', ''style1'')]) ''box-shadow'' = Some (Str ''style1'') \<and>
   map_of (CFPopup_dataAttrs [(''shadow'', ''style1'')]) ''data-style-guide-shadow'' = None"
  by code_simp

section \<open>Setting an attribute\<close>

lemma paths_forest_update:
  "i < length ns \<Longrightarrow> paths_node X = paths_node (ns ! i)
     \<Longrightarrow> paths_forest k (ns[i := X]) = paths_forest k ns"
proof (induction ns arbitrary: i k)
  case Nil
  then show ?case by simp
next
  case (Cons n ns)
  then show ?case by (cases i) simp_all
qed

lemma paths_forest_update_at: "paths_forest k (update_at f p ns) = paths_forest k ns"
proof (induction p arbitrary: ns k)
  case Nil
  then show ?case by simp
next
  case (Cons i p)
  show ?case
  proof (cases "i < length ns")
    case False
    then show ?thesis by simp
  next
    case True
    show ?thesis
    proof (cases "ns ! i")
      case (Text s)
      with True show ?thesis by simp
    next
      case (El t a cs)
      have "paths_node (if p = [] then El t (f a) cs else El t a (update_at f p cs))
          = paths_node (ns ! i)"
        using El Cons.IH [of 0 cs] by simp
      with True El show ?thesis by (simp add: paths_forest_update)
    qed
  qed
qed

lemma all_paths_setAttribute: "all_paths (setAttribute p n v doc) = all_paths doc"
  by (simp add: all_paths_def setAttribute_def paths_forest_update_at)

lemma node_at_update_at:
  "node_at (update_at f p ns) q =
     (case node_at ns q of
        None \<Rightarrow> None
      | Some (Text s) \<Rightarrow> Some (Text s)
      | Some (El t a cs) \<Rightarrow>
          Some (El t (if q = p then f a else a)
                  (if prefix q p \<and> q \<noteq> p then update_at f (drop (length q) p) cs else cs)))"
proof (induction p arbitrary: ns q)
  case Nil
  then show ?case by (simp split: option.splits node.splits)
next
  case (Cons i p)
  show ?case
  proof (cases q)
    case Nil
    then show ?thesis by simp
  next
    case q: (Cons j q')
    show ?thesis
    proof (cases "i < length ns")
      case False
      then show ?thesis using q by (auto split: option.splits node.splits)
    next
      case True
      show ?thesis
      proof (cases "ns ! i")
        case (Text s)
        with True q show ?thesis by (auto split: option.splits node.splits)
      next
        case (El t a cs)
        show ?thesis
        proof (cases "j = i")
          case False
          with True El q show ?thesis by (auto split: option.splits node.splits)
        next
          case j: True
          show ?thesis
          proof (cases "q' = []")
            case True
            with \<open>i < length ns\<close> El q j show ?thesis by simp
          next
            case False
            then show ?thesis
              using \<open>i < length ns\<close> El q j Cons.IH [of cs q']
              by (cases "p = []") (auto split: option.splits node.splits)
          qed
        qed
      qed
    qed
  qed
qed

lemma tag_at_setAttribute: "tag_at (setAttribute p n v doc) q = tag_at doc q"
  by (simp add: tag_at_def setAttribute_def node_at_update_at split: option.splits node.splits)

lemma attrs_at_setAttribute:
  "attrs_at (setAttribute p n v doc) q
     = (if q = p then map_option (AList.update n v) (attrs_at doc q) else attrs_at doc q)"
  by (simp add: attrs_at_def setAttribute_def node_at_update_at split: option.splits node.splits)

lemma tag_at_None: "(tag_at doc p = None) = (attrs_at doc p = None)"
  by (simp add: tag_at_def attrs_at_def split: option.splits node.splits)

lemma getAttribute_at_setAttribute:
  "getAttribute_at (setAttribute p n v doc) q m
     = (if q = p \<and> m = n \<and> tag_at doc p \<noteq> None then Some v else getAttribute_at doc q m)"
  by (cases "attrs_at doc p")
     (simp_all add: getAttribute_at_def attrs_at_setAttribute tag_at_None attr_def update_conv')

section \<open>What the post-processing leaves alone\<close>

lemma same_frame_refl: "same_frame d d"
  by (simp add: same_frame_def)

lemma same_frame_trans: "same_frame a b \<Longrightarrow> same_frame b c \<Longrightarrow> same_frame a c"
  by (simp add: same_frame_def)

lemma same_frame_setAttribute:
  "n \<in> set cascade_names \<Longrightarrow> same_frame d0 d \<Longrightarrow> same_frame d0 (setAttribute p n v d)"
  by (auto simp: same_frame_def all_paths_setAttribute tag_at_setAttribute getAttribute_at_setAttribute)

lemma matches_at_alt:
  "matches_at d (Tag t) q = (tag_at d q = Some t)"
  "matches_at d (HasAttr n) q = (getAttribute_at d q n \<noteq> None)"
  "matches_at d (AttrEq n v) q = (getAttribute_at d q n = Some v)"
  "matches_at d (AttrEqNotHas n v m) q
     = (getAttribute_at d q n = Some v \<and> getAttribute_at d q m = None)"
  by (auto simp: matches_at_def tag_at_def getAttribute_at_def attrs_at_def hasAttribute_def attr_def
      split: option.splits node.splits)

lemma hasAttribute_at_alt: "hasAttribute_at d q n = (getAttribute_at d q n \<noteq> None)"
  by (simp add: hasAttribute_at_def getAttribute_at_def hasAttribute_def attr_def split: option.splits)

lemma same_frame_matches:
  "same_frame d d' \<Longrightarrow> stable sel \<Longrightarrow> matches_at d' sel q = matches_at d sel q"
  by (cases sel) (simp_all add: matches_at_alt same_frame_def)

lemma same_frame_query:
  assumes "same_frame d d'" and "stable sel"
  shows "querySelectorAll d' sel = querySelectorAll d sel"
proof -
  have "all_paths d' = all_paths d" using assms(1) by (simp add: same_frame_def)
  moreover have "matches_at d' sel = matches_at d sel"
    using same_frame_matches [OF assms] by auto
  ultimately show ?thesis by (simp add: querySelectorAll_def)
qed

lemma same_frame_query_in:
  "same_frame d d' \<Longrightarrow> stable sel \<Longrightarrow> querySelectorAll_in d' c sel = querySelectorAll_in d c sel"
  by (simp add: querySelectorAll_in_def same_frame_query)

lemma same_frame_closest:
  assumes "same_frame d d'" and "stable sel"
  shows "closest d' e sel = closest d e sel"
proof -
  have "matches_at d' sel = matches_at d sel"
    using same_frame_matches [OF assms] by auto
  then show ?thesis by (simp add: closest_def)
qed

lemma same_frame_direct:
  "same_frame d d' \<Longrightarrow> isDirectPaintDescendant d' e c = isDirectPaintDescendant d e c"
  by (simp add: isDirectPaintDescendant_def same_frame_closest cascade_names_def)

lemma same_frame_has:
  "same_frame d d' \<Longrightarrow> n \<notin> set cascade_names \<Longrightarrow> hasAttribute_at d' e n = hasAttribute_at d e n"
  by (simp add: hasAttribute_at_alt same_frame_def)

section \<open>Loops that write one attribute\<close>

lemma find_SomeD: "find P ys = Some x \<Longrightarrow> x \<in> set ys \<and> P x"
  by (induction ys) (auto split: if_splits)

lemma fold_last_write:
  assumes "I s"
    and "\<And>x s. I s \<Longrightarrow> x \<in> set xs \<Longrightarrow> I (step x s)"
    and "\<And>x s. I s \<Longrightarrow> x \<in> set xs \<Longrightarrow> V (step x s) = (if hit x then val x else V s)"
  shows "I (fold step xs s)
     \<and> V (fold step xs s) = (case find hit (rev xs) of Some x \<Rightarrow> val x | None \<Rightarrow> V s)"
  using assms
proof (induction xs arbitrary: s rule: rev_induct)
  case Nil
  then show ?case by simp
next
  case (snoc x xs)
  have IH: "I (fold step xs s)
     \<and> V (fold step xs s) = (case find hit (rev xs) of Some x \<Rightarrow> val x | None \<Rightarrow> V s)"
    by (rule snoc.IH) (use snoc.prems in auto)
  then show ?case using snoc.prems(2,3) [of "fold step xs s" x] by simp
qed

lemma fold_const_write:
  assumes "I s"
    and "\<And>x s. I s \<Longrightarrow> x \<in> set xs \<Longrightarrow> I (step x s)"
    and "\<And>x s. I s \<Longrightarrow> x \<in> set xs \<Longrightarrow> V (step x s) = (if hit x then v else V s)"
  shows "I (fold step xs s) \<and> V (fold step xs s) = (if \<exists>x\<in>set xs. hit x then v else V s)"
proof -
  have "(case find hit (rev xs) of Some x \<Rightarrow> v | None \<Rightarrow> V s)
      = (if \<exists>x\<in>set xs. hit x then v else V s)"
  proof (cases "find hit (rev xs)")
    case None
    then have "\<not> (\<exists>x\<in>set xs. hit x)" by (auto simp: find_None_iff)
    then show ?thesis by (simp add: None)
  next
    case (Some x)
    then have "x \<in> set xs \<and> hit x" using find_SomeD [of hit "rev xs" x] by simp
    then have "\<exists>x\<in>set xs. hit x" by auto
    then show ?thesis by (simp add: Some)
  qed
  with fold_last_write [of I s xs step V hit "\<lambda>x. v", OF assms] show ?thesis by simp
qed

section \<open>The effect of one loop on one attribute of one element\<close>

lemma tracked_cases:
  "a \<in> set tracked \<longleftrightarrow> a = ''data-color'' \<or> a = ''data-text-color'' \<or> a = ''data-icon-color''"
  by (auto simp: tracked_def)

lemma tracked_other: "a \<in> set tracked \<Longrightarrow> a \<noteq> ''data-link-color'' \<and> a \<noteq> ''data-font''"
  by (auto simp: tracked_def)

lemma marker_stable: "a \<in> set tracked \<Longrightarrow> marker a \<notin> set cascade_names"
  by (auto simp: tracked_def marker_def cascade_names_def)

lemma marker_simps:
  "marker ''data-color'' = ''data-color-explicit''"
  "marker ''data-text-color'' = ''data-text-color-explicit''"
  "marker ''data-icon-color'' = ''data-icon-color-explicit''"
  by (simp_all add: marker_def)

lemma getAttribute_at_element: "getAttribute_at d q n = Some v \<Longrightarrow> tag_at d q \<noteq> None"
  by (auto simp: getAttribute_at_def tag_at_None split: option.splits)

lemma hasAttribute_at_setAttribute:
  "hasAttribute_at (setAttribute p n v d) q m
     = (if q = p \<and> m = n \<and> tag_at d p \<noteq> None then True else hasAttribute_at d q m)"
  by (auto simp: hasAttribute_at_alt getAttribute_at_setAttribute)

lemma query_in_element:
  assumes "x \<in> set (querySelectorAll_in d0 c (AttrEq n v))" and "same_frame d0 s"
  shows "tag_at s x \<noteq> None"
proof -
  from assms(1) have "getAttribute_at d0 x n = Some v"
    by (simp add: querySelectorAll_in_def querySelectorAll_def matches_at_alt)
  then have "tag_at d0 x \<noteq> None" by (rule getAttribute_at_element)
  with assms(2) show ?thesis by (simp add: same_frame_def)
qed

lemma set_link_color_frame:
  "same_frame d0 d \<Longrightarrow> same_frame d0 (set_link_color l x d)"
  by (simp add: set_link_color_def same_frame_setAttribute cascade_names_def)

lemma set_link_color_get:
  "m \<noteq> ''data-link-color'' \<Longrightarrow> getAttribute_at (set_link_color l x d) q m = getAttribute_at d q m"
  by (simp add: set_link_color_def getAttribute_at_setAttribute)

lemma paint_text_effect:
  assumes "same_frame d0 d" and "a \<in> set tracked"
  shows "same_frame d0 (paint_text T col link c d)
     \<and> getAttribute_at (paint_text T col link c d) e a
        = (if a = ''data-color'' \<and> e \<in> set (querySelectorAll_in d0 c (AttrEq ''data-type'' T))
              \<and> isDirectPaintDescendant d0 e c \<and> \<not> hasAttribute_at d0 e ''data-color-explicit''
           then Some col else getAttribute_at d e a)"
proof -
  let ?xs = "querySelectorAll_in d0 c (AttrEq ''data-type'' T)"
  let ?step = "\<lambda>el d. if isDirectPaintDescendant d el c
          then set_link_color link el
                 (if \<not> hasAttribute_at d el ''data-color-explicit''
                  then setAttribute el ''data-color'' col d else d)
          else d"
  note o = tracked_other [OF assms(2)]
  have q: "querySelectorAll_in d c (AttrEq ''data-type'' T) = ?xs"
    using assms by (simp add: same_frame_query_in cascade_names_def)
  have 1: "same_frame d0 (?step x s)" if "same_frame d0 s" for x s
    using that by (simp add: set_link_color_frame same_frame_setAttribute cascade_names_def)
  have 2: "getAttribute_at (?step x s) e a
      = (if x = e \<and> a = ''data-color'' \<and> isDirectPaintDescendant d0 e c
            \<and> \<not> hasAttribute_at d0 e ''data-color-explicit''
         then Some col else getAttribute_at s e a)"
    if "same_frame d0 s" and "x \<in> set ?xs" for x s
    using that query_in_element [OF that(2,1)] o
    by (auto simp: set_link_color_get getAttribute_at_setAttribute same_frame_direct
        same_frame_has cascade_names_def)
  from fold_const_write [of "same_frame d0" d ?xs ?step "\<lambda>s. getAttribute_at s e a"
      "\<lambda>x. x = e \<and> a = ''data-color'' \<and> isDirectPaintDescendant d0 e c
         \<and> \<not> hasAttribute_at d0 e ''data-color-explicit''"
      "Some col", OF assms(1) 1 2]
  show ?thesis unfolding paint_text_def forEach_def q by auto
qed

lemma paint_icon_effect:
  assumes "same_frame d0 d" and "a \<in> set tracked"
  shows "same_frame d0 (paint_icon col c d)
     \<and> getAttribute_at (paint_icon col c d) e a
        = (if a = ''data-color''
              \<and> e \<in> set (querySelectorAll_in d0 c (AttrEq ''data-type'' ''Icon/V1''))
              \<and> isDirectPaintDescendant d0 e c \<and> \<not> hasAttribute_at d0 e ''data-color-explicit''
           then Some col else getAttribute_at d e a)"
proof -
  let ?xs = "querySelectorAll_in d0 c (AttrEq ''data-type'' ''Icon/V1'')"
  let ?step = "\<lambda>el d. if isDirectPaintDescendant d el c
          then (if \<not> hasAttribute_at d el ''data-color-explicit''
                then setAttribute el ''data-color'' col d else d)
          else d"
  have q: "querySelectorAll_in d c (AttrEq ''data-type'' ''Icon/V1'') = ?xs"
    using assms by (simp add: same_frame_query_in cascade_names_def)
  have 1: "same_frame d0 (?step x s)" if "same_frame d0 s" for x s
    using that by (simp add: same_frame_setAttribute cascade_names_def)
  have 2: "getAttribute_at (?step x s) e a
      = (if x = e \<and> a = ''data-color'' \<and> isDirectPaintDescendant d0 e c
            \<and> \<not> hasAttribute_at d0 e ''data-color-explicit''
         then Some col else getAttribute_at s e a)"
    if "same_frame d0 s" and "x \<in> set ?xs" for x s
    using that query_in_element [OF that(2,1)]
    by (auto simp: getAttribute_at_setAttribute same_frame_direct same_frame_has cascade_names_def)
  from fold_const_write [of "same_frame d0" d ?xs ?step "\<lambda>s. getAttribute_at s e a"
      "\<lambda>x. x = e \<and> a = ''data-color'' \<and> isDirectPaintDescendant d0 e c
         \<and> \<not> hasAttribute_at d0 e ''data-color-explicit''"
      "Some col", OF assms(1) 1 2]
  show ?thesis unfolding paint_icon_def forEach_def q by auto
qed

lemma paint_list_effect:
  assumes "same_frame d0 d" and "a \<in> set tracked"
  shows "same_frame d0 (paint_list ccol icol link c d)
     \<and> getAttribute_at (paint_list ccol icol link c d) e a
        = (if a \<noteq> ''data-color''
              \<and> e \<in> set (querySelectorAll_in d0 c (AttrEq ''data-type'' ''BulletList/V1''))
              \<and> isDirectPaintDescendant d0 e c \<and> \<not> hasAttribute_at d0 e (marker a)
           then Some (if a = ''data-text-color'' then ccol else icol)
           else getAttribute_at d e a)"
proof -
  let ?xs = "querySelectorAll_in d0 c (AttrEq ''data-type'' ''BulletList/V1'')"
  let ?step = "\<lambda>el d. if isDirectPaintDescendant d el c
          then set_link_color link el
                 ((\<lambda>d. if \<not> hasAttribute_at d el ''data-icon-color-explicit''
                        then setAttribute el ''data-icon-color'' icol d else d)
                    (if \<not> hasAttribute_at d el ''data-text-color-explicit''
                     then setAttribute el ''data-text-color'' ccol d else d))
          else d"
  note o = tracked_other [OF assms(2)]
  have q: "querySelectorAll_in d c (AttrEq ''data-type'' ''BulletList/V1'') = ?xs"
    using assms by (simp add: same_frame_query_in cascade_names_def)
  have 1: "same_frame d0 (?step x s)" if "same_frame d0 s" for x s
    using that by (simp add: set_link_color_frame same_frame_setAttribute cascade_names_def)
  have 2: "getAttribute_at (?step x s) e a
      = (if x = e \<and> a \<noteq> ''data-color'' \<and> isDirectPaintDescendant d0 e c
            \<and> \<not> hasAttribute_at d0 e (marker a)
         then Some (if a = ''data-text-color'' then ccol else icol) else getAttribute_at s e a)"
    if "same_frame d0 s" and "x \<in> set ?xs" for x s
  proof -
    note t = query_in_element [OF that(2,1)]
    from assms(2) consider "a = ''data-color''" | "a = ''data-text-color''"
      | "a = ''data-icon-color''" by (auto simp: tracked_cases)
    then show ?thesis
    proof cases
      case 1
      then show ?thesis
        by (simp add: set_link_color_get getAttribute_at_setAttribute)
    next
      case 2
      then show ?thesis using that(1) t
        by (auto simp: set_link_color_get getAttribute_at_setAttribute same_frame_direct
            same_frame_has cascade_names_def marker_simps)
    next
      case 3
      then show ?thesis using that(1) t
        by (auto simp: set_link_color_get getAttribute_at_setAttribute hasAttribute_at_setAttribute
            tag_at_setAttribute same_frame_direct same_frame_has cascade_names_def marker_simps)
    qed
  qed
  from fold_const_write [of "same_frame d0" d ?xs ?step "\<lambda>s. getAttribute_at s e a"
      "\<lambda>x. x = e \<and> a \<noteq> ''data-color'' \<and> isDirectPaintDescendant d0 e c
         \<and> \<not> hasAttribute_at d0 e (marker a)"
      "Some (if a = ''data-text-color'' then ccol else icol)", OF assms(1) 1 2]
  show ?thesis unfolding paint_list_def forEach_def q by auto
qed

lemma fold_keeps:
  assumes "I s" and "\<And>x s. I s \<Longrightarrow> I (step x s) \<and> V (step x s) = V s"
  shows "I (fold step xs s) \<and> V (fold step xs s) = V s"
  using assms by (induction xs arbitrary: s) auto

lemma apply_font_effect:
  assumes "same_frame d0 d" and "a \<in> set tracked"
  shows "same_frame d0 (apply_font T font d)
     \<and> getAttribute_at (apply_font T font d) e a = getAttribute_at d e a"
proof (cases "truthy (of_attr font)")
  case False
  with assms show ?thesis by (simp add: apply_font_def)
next
  case True
  then show ?thesis
    unfolding apply_font_def forEach_def
    using fold_keeps [of "same_frame d0" d "\<lambda>el d. setAttribute el ''data-font'' (str_of font) d"
        "\<lambda>s. getAttribute_at s e a", OF assms(1)] tracked_other [OF assms(2)]
    by (simp add: same_frame_setAttribute getAttribute_at_setAttribute cascade_names_def)
qed

lemma apply_fonts_effect:
  assumes "same_frame d0 d" and "a \<in> set tracked"
  shows "same_frame d0 (apply_fonts typo d)
     \<and> getAttribute_at (apply_fonts typo d) e a = getAttribute_at d e a"
proof (cases typo)
  case None
  with assms show ?thesis by (simp add: apply_fonts_def)
next
  case (Some t)
  note a = apply_font_effect [OF assms, of "''Headline/V1''" "headlineFont t" e]
  note b = apply_font_effect [OF conjunct1 [OF a] assms(2), of "''SubHeadline/V1''" "subheadlineFont t" e]
  note c = apply_font_effect [OF conjunct1 [OF b] assms(2), of "''Paragraph/V1''" "contentFont t" e]
  from a b c Some show ?thesis by (simp add: apply_fonts_def)
qed

section \<open>Paths\<close>

lemma paths_forest_mem:
  "p \<in> set (paths_forest k ns)
     \<longleftrightarrow> (\<exists>i q. p = (k + i) # q \<and> i < length ns \<and> q \<in> set (paths_node (ns ! i)))"
proof (induction ns arbitrary: k)
  case Nil
  then show ?case by simp
next
  case (Cons n ns)
  show ?case
  proof
    assume "p \<in> set (paths_forest k (n # ns))"
    then consider "p \<in> (#) k ` set (paths_node n)" | "p \<in> set (paths_forest (Suc k) ns)"
      by auto
    then show "\<exists>i q. p = (k + i) # q \<and> i < length (n # ns) \<and> q \<in> set (paths_node ((n # ns) ! i))"
    proof cases
      case 1
      then obtain q where "p = k # q" "q \<in> set (paths_node n)" by auto
      then have "p = (k + 0) # q \<and> 0 < length (n # ns) \<and> q \<in> set (paths_node ((n # ns) ! 0))"
        by simp
      then show ?thesis by blast
    next
      case 2
      then obtain i q where "p = (Suc k + i) # q" "i < length ns" "q \<in> set (paths_node (ns ! i))"
        using Cons.IH [of "Suc k"] by auto
      then have "p = (k + Suc i) # q \<and> Suc i < length (n # ns)
          \<and> q \<in> set (paths_node ((n # ns) ! Suc i))"
        by simp
      then show ?thesis by blast
    qed
  next
    assume "\<exists>i q. p = (k + i) # q \<and> i < length (n # ns) \<and> q \<in> set (paths_node ((n # ns) ! i))"
    then obtain i q where *: "p = (k + i) # q" "i < length (n # ns)"
      "q \<in> set (paths_node ((n # ns) ! i))" by blast
    show "p \<in> set (paths_forest k (n # ns))"
    proof (cases i)
      case 0
      with * show ?thesis by simp
    next
      case (Suc j)
      with * have "p = (Suc k + j) # q \<and> j < length ns \<and> q \<in> set (paths_node (ns ! j))" by simp
      then have "p \<in> set (paths_forest (Suc k) ns)" using Cons.IH [of "Suc k"] by blast
      then show ?thesis by simp
    qed
  qed
qed

lemma paths_complete_aux:
  "node_at ns p = Some (El t a cs) \<Longrightarrow> p \<in> set (paths_forest 0 ns)"
proof (induction p arbitrary: ns t a cs)
  case Nil
  then show ?case by simp
next
  case (Cons i p)
  from Cons.prems have i: "i < length ns" by (simp split: if_splits)
  show ?case
  proof (cases "p = []")
    case True
    with Cons.prems i have "ns ! i = El t a cs" by simp
    then have "[] \<in> set (paths_node (ns ! i))" by simp
    with i True show ?thesis by (auto simp: paths_forest_mem)
  next
    case False
    with Cons.prems i obtain t' a' cs' where n: "ns ! i = El t' a' cs'"
      and "node_at cs' p = Some (El t a cs)"
      by (auto split: node.splits)
    then have "p \<in> set (paths_forest 0 cs')" using Cons.IH by blast
    with n have "p \<in> set (paths_node (ns ! i))" by simp
    with i show ?thesis by (auto simp: paths_forest_mem)
  qed
qed

lemma paths_complete: "tag_at d p \<noteq> None \<Longrightarrow> p \<in> set (all_paths d)"
  by (auto simp: tag_at_def all_paths_def paths_complete_aux split: option.splits node.splits)

lemma closest_prefix: "closest d e sel = Some c \<Longrightarrow> prefix c e"
  using find_SomeD [of _ "rev (prefixes e)" c] by (auto simp: closest_def in_set_prefixes)

lemma query_in_mem:
  "e \<in> set (querySelectorAll_in d c (AttrEq n v))
     \<longleftrightarrow> strict_prefix c e \<and> getAttribute_at d e n = Some v"
  using paths_complete [of d e] getAttribute_at_element [of d e n v]
  by (auto simp: querySelectorAll_in_def querySelectorAll_def matches_at_alt)

lemma query_mem:
  "c \<in> set (querySelectorAll d (AttrEq n v)) \<longleftrightarrow> getAttribute_at d c n = Some v"
  using paths_complete [of d c] getAttribute_at_element [of d c n v]
  by (auto simp: querySelectorAll_def matches_at_alt)

section \<open>The effect of the paint pass on the color of one element\<close>

text \<open>The element is painted by the container: the test the four loops share.\<close>

lemma direct_strict:
  "isDirectPaintDescendant d e c \<and> strict_prefix c e
     \<longleftrightarrow> closest d e (HasAttr ''data-paint-colors'') = Some c \<and> c \<noteq> e"
  using closest_prefix [of d e "HasAttr ''data-paint-colors''" c]
  by (auto simp: isDirectPaintDescendant_def strict_prefix_def)

lemma painted_by:
  "(e \<in> set (querySelectorAll_in d c (AttrEq ''data-type'' T)) \<and> isDirectPaintDescendant d e c \<and> R)
     \<longleftrightarrow> (getAttribute_at d e ''data-type'' = Some T
          \<and> closest d e (HasAttr ''data-paint-colors'') = Some c \<and> c \<noteq> e \<and> R)"
  using direct_strict [of d e c] by (auto simp: query_in_mem)

lemma paint_container_effect:
  assumes "same_frame d0 d" and "a \<in> set tracked"
  shows "same_frame d0 (paint_container data theme c d)
     \<and> getAttribute_at (paint_container data theme c d) e a
        = (case getAttribute_at d0 e ''data-type'' of
             None \<Rightarrow> getAttribute_at d e a
           | Some T \<Rightarrow>
               (case theme_color data theme T a of
                  None \<Rightarrow> getAttribute_at d e a
                | Some col \<Rightarrow>
                    if closest d0 e (HasAttr ''data-paint-colors'') = Some c \<and> c \<noteq> e
                       \<and> \<not> hasAttribute_at d0 e (marker a)
                    then Some col else getAttribute_at d e a))"
proof -
  let ?link = "theme_link_color data theme"
  let ?hc = "getColorHex data (headlineColorId theme)"
  let ?sc = "getColorHex data (subheadlineColorId theme)"
  let ?cc = "getColorHex data (contentColorId theme)"
  let ?ic = "getColorHex data (iconColorId theme)"
  let ?d1 = "paint_text ''Headline/V1'' ?hc ?link c d"
  let ?d2 = "paint_text ''SubHeadline/V1'' ?sc ?link c ?d1"
  let ?d3 = "paint_text ''Paragraph/V1'' ?cc ?link c ?d2"
  let ?d4 = "paint_icon ?ic c ?d3"
  let ?d5 = "paint_list ?cc ?ic ?link c ?d4"
  note t = assms(2)
  note e1 = paint_text_effect [OF assms, of "''Headline/V1''" ?hc ?link c e, unfolded painted_by]
  note e2 = paint_text_effect [OF conjunct1 [OF e1] t, of "''SubHeadline/V1''" ?sc ?link c e,
      unfolded painted_by]
  note e3 = paint_text_effect [OF conjunct1 [OF e2] t, of "''Paragraph/V1''" ?cc ?link c e,
      unfolded painted_by]
  note e4 = paint_icon_effect [OF conjunct1 [OF e3] t, of ?ic c e, unfolded painted_by]
  note e5 = paint_list_effect [OF conjunct1 [OF e4] t, of ?cc ?ic ?link c e, unfolded painted_by]
  note vs = conjunct2 [OF e5] conjunct2 [OF e4] conjunct2 [OF e3] conjunct2 [OF e2]
    conjunct2 [OF e1]
  have r: "paint_container data theme c d = ?d5"
    by (simp add: paint_container_def Let_def)
  have f: "same_frame d0 ?d5" using e5 by simp
  have v: "getAttribute_at ?d5 e a
        = (case getAttribute_at d0 e ''data-type'' of
             None \<Rightarrow> getAttribute_at d e a
           | Some T \<Rightarrow>
               (case theme_color data theme T a of
                  None \<Rightarrow> getAttribute_at d e a
                | Some col \<Rightarrow>
                    if closest d0 e (HasAttr ''data-paint-colors'') = Some c \<and> c \<noteq> e
                       \<and> \<not> hasAttribute_at d0 e (marker a)
                    then Some col else getAttribute_at d e a))"
  proof (cases "getAttribute_at d0 e ''data-type''")
    case None
    then show ?thesis by (simp add: vs)
  next
    case (Some T)
    from t consider "a = ''data-color''" | "a = ''data-text-color''" | "a = ''data-icon-color''"
      by (auto simp: tracked_cases)
    then show ?thesis
    proof cases
      case 1
      consider "T = ''Headline/V1''" | "T = ''SubHeadline/V1''" | "T = ''Paragraph/V1''"
        | "T = ''Icon/V1''"
        | "T \<noteq> ''Headline/V1'' \<and> T \<noteq> ''SubHeadline/V1'' \<and> T \<noteq> ''Paragraph/V1''
            \<and> T \<noteq> ''Icon/V1''" by blast
      then show ?thesis
        by cases (simp_all add: vs [unfolded 1] Some 1 theme_color_def marker_simps)
    next
      case 2
      show ?thesis
        by (cases "T = ''BulletList/V1''") (simp_all add: vs [unfolded 2] Some 2 theme_color_def marker_simps)
    next
      case 3
      show ?thesis
        by (cases "T = ''BulletList/V1''") (simp_all add: vs [unfolded 3] Some 3 theme_color_def marker_simps)
    qed
  qed
  from f v show ?thesis unfolding r by simp
qed

section \<open>The effect of the pass of one theme, and of all themes\<close>

lemma paint_theme_pass_effect:
  assumes "same_frame d0 d" and "a \<in> set tracked"
  shows "same_frame d0 (paint_theme_pass data theme d)
     \<and> getAttribute_at (paint_theme_pass data theme d) e a
        = (case getAttribute_at d0 e ''data-type'' of
             None \<Rightarrow> getAttribute_at d e a
           | Some T \<Rightarrow>
               (case theme_color data theme T a of
                  None \<Rightarrow> getAttribute_at d e a
                | Some col \<Rightarrow>
                    if (\<exists>c. closest d0 e (HasAttr ''data-paint-colors'') = Some c \<and> c \<noteq> e
                            \<and> getAttribute_at d0 c ''data-paint-colors'' = Some (theme_id theme))
                       \<and> \<not> hasAttribute_at d0 e (marker a)
                    then Some col else getAttribute_at d e a))"
proof -
  let ?cs = "querySelectorAll d0 (AttrEq ''data-paint-colors'' (theme_id theme))"
  let ?V = "\<lambda>s. getAttribute_at s e a"
  note t = assms(2)
  have q: "querySelectorAll d (AttrEq ''data-paint-colors'' (theme_id theme)) = ?cs"
    using assms by (simp add: same_frame_query cascade_names_def)
  have r: "paint_theme_pass data theme d = fold (paint_container data theme) ?cs d"
    by (simp add: paint_theme_pass_def forEach_def q)
  show ?thesis
  proof (cases "getAttribute_at d0 e ''data-type''")
    case None
    have "same_frame d0 (fold (paint_container data theme) ?cs d)
        \<and> ?V (fold (paint_container data theme) ?cs d) = ?V d"
      by (rule fold_keeps [of "same_frame d0", OF assms(1)])
         (use paint_container_effect [OF _ t, of d0 _ data theme _ e] None in simp)
    with None show ?thesis by (simp add: r)
  next
    case (Some T)
    show ?thesis
    proof (cases "theme_color data theme T a")
      case None
      have "same_frame d0 (fold (paint_container data theme) ?cs d)
          \<and> ?V (fold (paint_container data theme) ?cs d) = ?V d"
        by (rule fold_keeps [of "same_frame d0", OF assms(1)])
           (use paint_container_effect [OF _ t, of d0 _ data theme _ e] Some None in simp)
      with Some None show ?thesis by (simp add: r)
    next
      case col: (Some col)
      have 1: "same_frame d0 (paint_container data theme c s)" if "same_frame d0 s" for c s
        using paint_container_effect [OF that t] by simp
      have 2: "?V (paint_container data theme c s)
          = (if closest d0 e (HasAttr ''data-paint-colors'') = Some c \<and> c \<noteq> e
                \<and> \<not> hasAttribute_at d0 e (marker a)
             then Some col else ?V s)" if "same_frame d0 s" for c s
        using paint_container_effect [OF that t, of data theme c e] Some col by simp
      have "same_frame d0 (fold (paint_container data theme) ?cs d)
          \<and> ?V (fold (paint_container data theme) ?cs d)
            = (if \<exists>c\<in>set ?cs. closest d0 e (HasAttr ''data-paint-colors'') = Some c \<and> c \<noteq> e
                    \<and> \<not> hasAttribute_at d0 e (marker a)
               then Some col else ?V d)"
        by (rule fold_const_write [of "same_frame d0", OF assms(1)]) (simp_all add: 1 2)
      moreover have "(\<exists>c\<in>set ?cs. closest d0 e (HasAttr ''data-paint-colors'') = Some c \<and> c \<noteq> e
                    \<and> \<not> hasAttribute_at d0 e (marker a))
          \<longleftrightarrow> (\<exists>c. closest d0 e (HasAttr ''data-paint-colors'') = Some c \<and> c \<noteq> e
                            \<and> getAttribute_at d0 c ''data-paint-colors'' = Some (theme_id theme))
                       \<and> \<not> hasAttribute_at d0 e (marker a)"
        by (auto simp: query_mem)
      ultimately show ?thesis using Some col by (simp add: r)
    qed
  qed
qed

text \<open>An element that carries the marker of an attribute keeps the attribute.\<close>

lemma explicit_color_kept:
  assumes "a \<in> set tracked" and "hasAttribute_at d e (marker a)"
  shows "getAttribute_at (applyFontDataAttributes data d) e a = getAttribute_at d e a"
proof (cases data)
  case None
  then show ?thesis by (simp add: applyFontDataAttributes_def)
next
  case (Some sg)
  let ?V = "\<lambda>s. getAttribute_at s e a"
  let ?d1 = "apply_fonts (typography sg) d"
  note f = apply_fonts_effect [OF same_frame_refl assms(1), of d "typography sg" e]
  have "same_frame d (fold (paint_theme_pass data) (paintThemes sg) ?d1)
      \<and> ?V (fold (paint_theme_pass data) (paintThemes sg) ?d1) = ?V ?d1"
    by (rule fold_keeps [of "same_frame d", OF conjunct1 [OF f]])
       (use paint_theme_pass_effect [OF _ assms(1), of d _ data _ e] assms(2)
         in \<open>simp split: option.splits\<close>)
  with f Some show ?thesis
    by (simp add: applyFontDataAttributes_def apply_paint_def forEach_def)
qed

text \<open>
  An element without the marker takes the color of the theme of its nearest paint
  container: of the last theme of the styleguide with that id.
\<close>

lemma theme_color_applied:
  assumes "a \<in> set tracked" and "\<not> hasAttribute_at d e (marker a)"
    and "closest d e (HasAttr ''data-paint-colors'') = Some C" and "C \<noteq> e"
    and "getAttribute_at d C ''data-paint-colors'' = Some tid"
    and "find (\<lambda>t. theme_id t = tid) (rev (paintThemes sg)) = Some theme"
    and "getAttribute_at d e ''data-type'' = Some T"
    and "theme_color (Some sg) theme T a = Some col"
  shows "getAttribute_at (applyFontDataAttributes (Some sg) d) e a = Some col"
proof -
  let ?V = "\<lambda>s. getAttribute_at s e a"
  let ?d1 = "apply_fonts (typography sg) d"
  note f = apply_fonts_effect [OF same_frame_refl assms(1), of d "typography sg" e]
  have T: "theme_color (Some sg) t T a \<noteq> None" for t
    using assms(8) by (auto simp: theme_color_def split: if_splits)
  have 1: "same_frame d (paint_theme_pass (Some sg) t s)" if "same_frame d s" for t s
    using paint_theme_pass_effect [OF that assms(1)] by simp
  have 2: "?V (paint_theme_pass (Some sg) t s)
      = (if theme_id t = tid then theme_color (Some sg) t T a else ?V s)"
    if "same_frame d s" for t s
    using paint_theme_pass_effect [OF that assms(1), of "Some sg" t e] assms(2,3,4,5,7) T [of t]
    by (auto split: option.splits)
  have "same_frame d (fold (paint_theme_pass (Some sg)) (paintThemes sg) ?d1)
      \<and> ?V (fold (paint_theme_pass (Some sg)) (paintThemes sg) ?d1)
        = (case find (\<lambda>t. theme_id t = tid) (rev (paintThemes sg)) of
             Some t \<Rightarrow> theme_color (Some sg) t T a | None \<Rightarrow> ?V ?d1)"
    by (rule fold_last_write [of "same_frame d", OF conjunct1 [OF f]]) (simp_all add: 1 2)
  with assms(6,8) show ?thesis
    by (simp add: applyFontDataAttributes_def apply_paint_def forEach_def)
qed

text \<open>
  An element whose nearest paint container names no theme of the styleguide, or that
  has no paint container above it, is not touched, whatever other containers there are.
\<close>

lemma foreign_container_untouched:
  assumes "a \<in> set tracked"
    and "case closest d e (HasAttr ''data-paint-colors'') of
             None \<Rightarrow> True
           | Some C \<Rightarrow> C = e \<or> (\<forall>t\<in>set (paintThemes sg).
                    getAttribute_at d C ''data-paint-colors'' \<noteq> Some (theme_id t))"
  shows "getAttribute_at (applyFontDataAttributes (Some sg) d) e a = getAttribute_at d e a"
proof -
  let ?V = "\<lambda>s. getAttribute_at s e a"
  let ?d1 = "apply_fonts (typography sg) d"
  note f = apply_fonts_effect [OF same_frame_refl assms(1), of d "typography sg" e]
  have 1: "same_frame d (paint_theme_pass (Some sg) t s)" if "same_frame d s" for t s
    using paint_theme_pass_effect [OF that assms(1)] by simp
  have 2: "?V (paint_theme_pass (Some sg) t s) = (if False then None else ?V s)"
    if "same_frame d s" and "t \<in> set (paintThemes sg)" for t s
    using paint_theme_pass_effect [OF that(1) assms(1), of "Some sg" t e] assms(2) that(2)
    by (auto split: option.splits)
  have "same_frame d (fold (paint_theme_pass (Some sg)) (paintThemes sg) ?d1)
      \<and> ?V (fold (paint_theme_pass (Some sg)) (paintThemes sg) ?d1)
        = (case find (\<lambda>t. False) (rev (paintThemes sg)) of
             Some t \<Rightarrow> None | None \<Rightarrow> ?V ?d1)"
    by (rule fold_last_write [of "same_frame d", OF conjunct1 [OF f]]) (simp_all add: 1 2)
  moreover have "find (\<lambda>t. False) (rev (paintThemes sg)) = None"
    by (simp add: find_None_iff)
  ultimately show ?thesis using f
    by (simp add: applyFontDataAttributes_def apply_paint_def forEach_def)
qed

text \<open>A container does not touch an element whose nearest paint container is another one.\<close>

lemma other_container_untouched:
  assumes "a \<in> set tracked" and "closest d e (HasAttr ''data-paint-colors'') \<noteq> Some C"
  shows "getAttribute_at (paint_container data theme C d) e a = getAttribute_at d e a"
  using paint_container_effect [OF same_frame_refl assms(1), of d data theme C e] assms(2)
  by (simp split: option.splits)

section \<open>The paint cascade\<close>

text \<open>
  C4. Let \<open>a\<close> be \<open>data-color\<close> (headlines, subheadlines, paragraphs, icons) or
  \<open>data-text-color\<close> or \<open>data-icon-color\<close> (bullet lists), and its marker \<open>a\<close> with
  \<open>-explicit\<close> appended. After \<open>applyFontDataAttributes\<close>: an element that carries the
  marker keeps its \<open>a\<close>; an element without the marker, whose nearest element with
  \<open>data-paint-colors\<close> is the container \<open>C\<close> above it, and \<open>C\<close> names a theme of the
  styleguide, has as \<open>a\<close> the color of that theme for its data type (of the last theme
  with this id); an element with no painted container above it, or whose nearest one
  names no theme, keeps its \<open>a\<close>. And the loops of one container leave alone every
  element whose nearest painted container is another one.
\<close>

theorem paint_cascade:
  assumes "a \<in> set tracked"
  shows "(hasAttribute_at d x (marker a)
            \<longrightarrow> getAttribute_at (applyFontDataAttributes (Some sg) d) x a = getAttribute_at d x a)
     \<and> (\<not> hasAttribute_at d y (marker a)
          \<and> closest d y (HasAttr ''data-paint-colors'') = Some C \<and> C \<noteq> y
          \<and> getAttribute_at d C ''data-paint-colors'' = Some tid
          \<and> find (\<lambda>t. theme_id t = tid) (rev (paintThemes sg)) = Some theme
          \<and> getAttribute_at d y ''data-type'' = Some T
          \<and> theme_color (Some sg) theme T a = Some col
            \<longrightarrow> getAttribute_at (applyFontDataAttributes (Some sg) d) y a = Some col)
     \<and> ((case closest d z (HasAttr ''data-paint-colors'') of
            None \<Rightarrow> True
          | Some C' \<Rightarrow> C' = z \<or> (\<forall>t\<in>set (paintThemes sg).
                    getAttribute_at d C' ''data-paint-colors'' \<noteq> Some (theme_id t)))
            \<longrightarrow> getAttribute_at (applyFontDataAttributes (Some sg) d) z a = getAttribute_at d z a)
     \<and> (closest d w (HasAttr ''data-paint-colors'') \<noteq> Some B
            \<longrightarrow> getAttribute_at (paint_container (Some sg) theme' B d) w a = getAttribute_at d w a)"
  using assms
  by (simp add: explicit_color_kept theme_color_applied foreign_container_untouched
      other_container_untouched)

theorem paint_cascade_witness:
  "getAttribute_at (applyFontDataAttributes (Some example_styleguide) paint_doc) [0, 1] ''data-color''
     = Some ''#ff0000''
   \<and> getAttribute_at (applyFontDataAttributes (Some example_styleguide) paint_doc) [0, 0] ''data-color''
     = Some ''#222222''
   \<and> getAttribute_at (applyFontDataAttributes (Some example_styleguide) paint_doc) [1, 0] ''data-color''
     = Some ''#111111''
   \<and> getAttribute_at (applyFontDataAttributes (Some example_styleguide) paint_doc) [2, 0] ''data-color''
     = Some ''#00ff00''
   \<and> getAttribute_at (applyFontDataAttributes (Some example_styleguide) paint_doc) [0, 2]
       ''data-text-color'' = Some ''#222222''
   \<and> getAttribute_at (applyFontDataAttributes (Some example_styleguide) paint_doc) [0, 2]
       ''data-icon-color'' = Some ''#0000ff''
   \<and> getAttribute_at (paint_container (Some example_styleguide) (paintThemes example_styleguide ! 0)
         [0] paint_doc) [1, 0] ''data-color'' = None"
proof -
  let ?dark = "paintThemes example_styleguide ! 0"
  let ?light = "paintThemes example_styleguide ! 1"
  have t: "''data-color'' \<in> set tracked" "''data-text-color'' \<in> set tracked"
    "''data-icon-color'' \<in> set tracked"
    by (simp_all add: tracked_def)
  have x: "hasAttribute_at paint_doc [0, 1] (marker ''data-color'')"
    "getAttribute_at paint_doc [0, 1] ''data-color'' = Some ''#ff0000''"
    by code_simp+
  have y: "\<not> hasAttribute_at paint_doc [0, 0] (marker ''data-color'')"
    "closest paint_doc [0, 0] (HasAttr ''data-paint-colors'') = Some [0]"
    "getAttribute_at paint_doc [0] ''data-paint-colors'' = Some ''dark''"
    "find (\<lambda>t. theme_id t = ''dark'') (rev (paintThemes example_styleguide)) = Some ?dark"
    "getAttribute_at paint_doc [0, 0] ''data-type'' = Some ''Headline/V1''"
    "theme_color (Some example_styleguide) ?dark ''Headline/V1'' ''data-color'' = Some ''#222222''"
    by code_simp+
  have y': "\<not> hasAttribute_at paint_doc [1, 0] (marker ''data-color'')"
    "closest paint_doc [1, 0] (HasAttr ''data-paint-colors'') = Some [1]"
    "getAttribute_at paint_doc [1] ''data-paint-colors'' = Some ''light''"
    "find (\<lambda>t. theme_id t = ''light'') (rev (paintThemes example_styleguide)) = Some ?light"
    "getAttribute_at paint_doc [1, 0] ''data-type'' = Some ''Headline/V1''"
    "theme_color (Some example_styleguide) ?light ''Headline/V1'' ''data-color'' = Some ''#111111''"
    by code_simp+
  have z: "case closest paint_doc [2, 0] (HasAttr ''data-paint-colors'') of
            None \<Rightarrow> True
          | Some C' \<Rightarrow> C' = [2, 0] \<or> (\<forall>t\<in>set (paintThemes example_styleguide).
                    getAttribute_at paint_doc C' ''data-paint-colors'' \<noteq> Some (theme_id t))"
    "getAttribute_at paint_doc [2, 0] ''data-color'' = Some ''#00ff00''"
    by code_simp+
  have w: "closest paint_doc [1, 0] (HasAttr ''data-paint-colors'') \<noteq> Some [0]"
    "getAttribute_at paint_doc [1, 0] ''data-color'' = None"
    by code_simp+
  have l: "\<not> hasAttribute_at paint_doc [0, 2] (marker ''data-text-color'')"
    "closest paint_doc [0, 2] (HasAttr ''data-paint-colors'') = Some [0]"
    "getAttribute_at paint_doc [0, 2] ''data-type'' = Some ''BulletList/V1''"
    "theme_color (Some example_styleguide) ?dark ''BulletList/V1'' ''data-text-color''
       = Some ''#222222''"
    "hasAttribute_at paint_doc [0, 2] (marker ''data-icon-color'')"
    "getAttribute_at paint_doc [0, 2] ''data-icon-color'' = Some ''#0000ff''"
    by code_simp+
  note A = paint_cascade [OF t(1), of paint_doc "[0, 1]" example_styleguide "[0, 0]" "[0]"
      "''dark''" ?dark "''Headline/V1''" "''#222222''" "[2, 0]" "[1, 0]" "[0]" ?dark]
  note B = paint_cascade [OF t(1), of paint_doc "[0, 1]" example_styleguide "[1, 0]" "[1]"
      "''light''" ?light "''Headline/V1''" "''#111111''" "[2, 0]" "[1, 0]" "[0]" ?dark]
  note L = paint_cascade [OF t(2), of paint_doc "[0, 1]" example_styleguide "[0, 2]" "[0]"
      "''dark''" ?dark "''BulletList/V1''" "''#222222''" "[2, 0]" "[1, 0]" "[0]" ?dark]
  note I = paint_cascade [OF t(3), of paint_doc "[0, 2]" example_styleguide "[0, 2]" "[0]"
      "''dark''" ?dark "''BulletList/V1''" "''#222222''" "[2, 0]" "[1, 0]" "[0]" ?dark]
  have 1: "getAttribute_at (applyFontDataAttributes (Some example_styleguide) paint_doc) [0, 1]
      ''data-color'' = Some ''#ff0000''"
    using A x by simp
  have 2: "getAttribute_at (applyFontDataAttributes (Some example_styleguide) paint_doc) [0, 0]
      ''data-color'' = Some ''#222222''"
    using A y by simp
  have 3: "getAttribute_at (applyFontDataAttributes (Some example_styleguide) paint_doc) [1, 0]
      ''data-color'' = Some ''#111111''"
    using B y' by simp
  have 4: "getAttribute_at (applyFontDataAttributes (Some example_styleguide) paint_doc) [2, 0]
      ''data-color'' = Some ''#00ff00''"
    using A z by simp
  have 5: "getAttribute_at (applyFontDataAttributes (Some example_styleguide) paint_doc) [0, 2]
      ''data-text-color'' = Some ''#222222''"
    using L l y(3,4) by simp
  have 6: "getAttribute_at (applyFontDataAttributes (Some example_styleguide) paint_doc) [0, 2]
      ''data-icon-color'' = Some ''#0000ff''"
    using I l by simp
  have 7: "getAttribute_at (paint_container (Some example_styleguide) ?dark [0] paint_doc) [1, 0]
      ''data-color'' = None"
    using A w by simp
  from 1 2 3 4 5 6 7 show ?thesis by simp
qed

section \<open>The order of the two passes\<close>

text \<open>
  On a page that starts without styleguide data, the handler applies the font and paint
  post-processing to the document as it was written, and renders afterwards.
\<close>

lemma BrandAssetsManager_init_document:
  "document (BrandAssetsManager_init parse b pg) = document pg"
  by (simp add: BrandAssetsManager_init_def split: option.splits sum.splits)

lemma StyleguideManager_init_document:
  assumes "sg_data pg = None"
  shows "document (StyleguideManager_init parse None pg)
     = applyFontDataAttributes (sg_data (StyleguideManager_init parse None pg)) (document pg)"
  using assms
  by (simp add: StyleguideManager_init_def injectCSS_def applyFontDataAttributes_def
      split: option.splits sum.splits)

lemma auto_init_cascade_first:
  assumes "sg_data pg = None"
  shows "document (fst (auto_init parse_sg parse_ba els pg))
     = (let pg1 = StyleguideManager_init parse_sg None pg;
            pg2 = BrandAssetsManager_init parse_ba None pg1
        in fst (initFunnelWind (els (sg_data pg2) (brand_data pg2))
                  (applyFontDataAttributes (sg_data pg1) (document pg))))"
  using StyleguideManager_init_document [OF assms, of parse_sg]
  by (simp add: auto_init_def Let_def BrandAssetsManager_init_document)

text \<open>
  C5. On the page with a painted section around a headline, the handler runs the paint
  post-processing while the headline and the section are still \<open>cf-\<close> tags and no
  element carries a \<open>data-type\<close>: it changes nothing. The rendering pass follows (the
  headline, then the section). In the document that results, the rendered headline has
  no explicit color and lies directly under the section painted \<open>dark\<close>, yet it has no
  \<open>data-color\<close>; the post-processing, were it run now, would set it to the headline
  color of the theme.
\<close>

theorem cascade_before_rendering:
  "querySelectorAll (document cascade_page) (Tag ''cf-headline'') = [[1, 0]]
   \<and> querySelectorAll (document cascade_page) (HasAttr ''data-type'') = []
   \<and> document (StyleguideManager_init given_styleguide None cascade_page) = document cascade_page
   \<and> map ev_tag (snd (auto_init given_styleguide no_json modelled_elements cascade_page))
       = [''cf-headline'', ''cf-section'']
   \<and> (let doc = document (fst (auto_init given_styleguide no_json modelled_elements cascade_page))
      in getAttribute_at doc [1, 0] ''data-type'' = Some ''Headline/V1''
         \<and> \<not> hasAttribute_at doc [1, 0] ''data-color-explicit''
         \<and> closest doc [1, 0] (HasAttr ''data-paint-colors'') = Some [1]
         \<and> getAttribute_at doc [1] ''data-paint-colors'' = Some ''dark''
         \<and> getAttribute_at doc [1, 0] ''data-color'' = None
         \<and> getAttribute_at (applyFontDataAttributes (Some example_styleguide) doc) [1, 0]
              ''data-color'' = Some ''#222222'')"
  by code_simp


section \<open>The trace of the rendering pass\<close>












section \<open>Document order\<close>


lemma before_Cons: "before (k # p) (k # q) = before p q"
  by simp








section \<open>The events of one tag\<close>






section \<open>What is pending\<close>











section \<open>The atomic group\<close>





section \<open>The containers\<close>



section \<open>What a container captures\<close>








section \<open>The renderers of the containers\<close>








section \<open>The schedule\<close>





end
